theory Spec2Isabelle
  imports Complex_Main "HOL-Library.AList" "HOL-Library.Multiset"
begin

section \<open>Go library functions used by the image scan engine\<close>

text \<open>
  Go strings are byte strings: \<open>string\<close> (a list of 8-bit characters) models them.
  \<open>strings.HasPrefix\<close> and \<open>strings.Contains\<close> are written as recursive functions.
\<close>

fun strings_HasPrefix :: "string \<Rightarrow> string \<Rightarrow> bool" where
  "strings_HasPrefix s [] = True"
| "strings_HasPrefix [] (p # ps) = False"
| "strings_HasPrefix (c # cs) (p # ps) = (c = p \<and> strings_HasPrefix cs ps)"

fun strings_Contains :: "string \<Rightarrow> string \<Rightarrow> bool" where
  "strings_Contains [] substr = (substr = [])"
| "strings_Contains (c # cs) substr =
     (strings_HasPrefix (c # cs) substr \<or> strings_Contains cs substr)"

text \<open>
  \<open>strings.Split s sep\<close> for a non-empty separator: the pieces between the non-overlapping
  occurrences of \<open>sep\<close>, found from the left. The helper walks the string once; \<open>skip\<close>
  counts the bytes of a separator still to be dropped, \<open>acc\<close> is the current piece reversed.
  The engine only splits at \<open>://\<close>; for the empty separator the model cuts after every byte.
\<close>

fun split_go :: "string \<Rightarrow> nat \<Rightarrow> string \<Rightarrow> string \<Rightarrow> string list" where
  "split_go sep skip acc [] = [rev acc]"
| "split_go sep skip acc (c # cs) =
     (if 0 < skip then split_go sep (skip - 1) acc cs
      else if strings_HasPrefix (c # cs) sep
        then rev acc # split_go sep (length sep - 1) [] cs
        else split_go sep 0 (c # acc) cs)"

definition strings_Split :: "string \<Rightarrow> string \<Rightarrow> string list" where
  "strings_Split s sep =
     (if sep = [] then map (\<lambda>c. [c]) s else split_go sep 0 [] s)"

text \<open>
  Errors. The three package-level sentinels of the engine are constructors of their own;
  \<open>errorString\<close> is any other error made by \<open>errors.New\<close>, and \<open>wrapError msg e\<close> an error
  whose \<open>Unwrap\<close> returns \<open>e\<close> (as \<open>fmt.Errorf\<close> with \<open>%w\<close> builds). A Go value of type
  \<open>error\<close> may be nil: \<open>error option\<close>. Where the code panics (a nil pointer, a slice
  bound out of range) the model returns \<open>runtimePanic\<close> on the error side.
\<close>

datatype error =
    errNoCandidates
  | errImageScanLayerNotFound
  | errPrivateImage
  | errorString string
  | wrapError string error
  | runtimePanic string

fun Error :: "error \<Rightarrow> string" where
  "Error errNoCandidates = ''no candidates''"
| "Error errImageScanLayerNotFound = ''image layer not found''"
| "Error errPrivateImage = ''private image''"
| "Error (errorString s) = s"
| "Error (wrapError s e) = s"
| "Error (runtimePanic s) = s"

fun error_chain_has :: "error \<Rightarrow> error \<Rightarrow> bool" where
  "error_chain_has (wrapError s e) target =
     (wrapError s e = target \<or> error_chain_has e target)"
| "error_chain_has e target = (e = target)"

definition errors_Is :: "error option \<Rightarrow> error \<Rightarrow> bool" where
  "errors_Is err target =
     (case err of None \<Rightarrow> False | Some e \<Rightarrow> error_chain_has e target)"

text \<open>
  \<open>time.Time\<close> is an instant counted in nanoseconds from the zero time (January 1, year 1,
  00:00 UTC), so that \<open>IsZero\<close> is equality with 0; \<open>time.Duration\<close> is a number of
  nanoseconds.
\<close>

type_synonym time = int
type_synonym Duration = int

definition IsZero :: "time \<Rightarrow> bool" where
  "IsZero t = (t = 0)"

definition Before :: "time \<Rightarrow> time \<Rightarrow> bool" where
  "Before t u = (t < u)"

definition After :: "time \<Rightarrow> time \<Rightarrow> bool" where
  "After t u = (u < t)"

definition Add :: "time \<Rightarrow> Duration \<Rightarrow> time" where
  "Add t d = t + d"

definition Second :: Duration where
  "Second = 1000000000"

text \<open>
  \<open>wait.Backoff\<close> of k8s.io/apimachinery with its \<open>Step\<close> method. \<open>Jitter\<close> is zero in every
  backoff the engine creates and the field is left out. \<open>Factor\<close> is a float64 in Go; the
  conversion \<open>time.Duration(float64(Duration) * Factor)\<close> truncates the product towards
  zero, and the product is exact for the magnitudes that occur here (below \<open>2^53\<close>).
  \<open>Step\<close> returns the delay and the updated backoff.
\<close>

definition truncate_Duration :: "rat \<Rightarrow> Duration" where
  "truncate_Duration x = (if 0 \<le> x then \<lfloor>x\<rfloor> else \<lceil>x\<rceil>)"

record Backoff =
  Duration :: Duration
  Factor :: rat
  Steps :: int
  Cap :: Duration

definition Step :: "Backoff \<Rightarrow> Duration \<times> Backoff" where
  "Step b =
     (if Steps b < 1 then (Duration b, b)
      else
        let b1 = b\<lparr>Steps := Steps b - 1\<rparr>;
            duration = Duration b1;
            b2 = (if Factor b1 \<noteq> 0
                  then
                    let b3 = b1\<lparr>Duration := truncate_Duration (of_int (Duration b1) * Factor b1)\<rparr>
                    in if 0 < Cap b3 \<and> Cap b3 < Duration b3
                       then b3\<lparr>Duration := Cap b3, Steps := 0\<rparr>
                       else b3
                  else b1)
        in (duration, b2))"

text \<open>
  \<open>sort.Slice\<close>. For slices of at most 12 elements Go's implementation is exactly the
  insertion sort below: element \<open>i\<close> moves left while \<open>less\<close> holds between it and its left
  neighbour. For longer slices Go switches to pattern-defeating quicksort, which yields some
  sorted permutation when \<open>less\<close> is a strict weak order; the order among equal elements
  is unspecified in both. \<open>insert_left\<close> works on the already processed prefix held in
  reverse, so that its head is the left neighbour.
\<close>

fun insert_left :: "('a \<Rightarrow> 'a \<Rightarrow> bool) \<Rightarrow> 'a \<Rightarrow> 'a list \<Rightarrow> 'a list" where
  "insert_left lt x [] = [x]"
| "insert_left lt x (y # ys) =
     (if lt x y then y # insert_left lt x ys else x # y # ys)"

definition sort_Slice :: "('a \<Rightarrow> 'a \<Rightarrow> bool) \<Rightarrow> 'a list \<Rightarrow> 'a list" where
  "sort_Slice lt xs = rev (foldl (\<lambda>acc x. insert_left lt x acc) [] xs)"

text \<open>
  A Go map is an association list with distinct keys; the order of the list stands for the
  order in which a \<open>range\<close> loop, \<open>lo.Keys\<close> or \<open>lo.Values\<close> happens to visit the map.
  Lookup is \<open>map_of\<close>, assignment \<open>AList.update\<close>, \<open>delete\<close> is \<open>AList.delete\<close>.
\<close>

type_synonym ('k, 'v) gomap = "('k \<times> 'v) list"

definition lo_Keys :: "('k, 'v) gomap \<Rightarrow> 'k list" where
  "lo_Keys m = map fst m"

definition lo_Values :: "('k, 'v) gomap \<Rightarrow> 'v list" where
  "lo_Values m = map snd m"

section \<open>Kubernetes and CAST AI objects\<close>

text \<open>
  The fields of the Kubernetes API objects that the engine reads. Resource quantities are
  exact decimals (\<open>inf.Dec\<close>): rationals, with the same sum, difference and order.
\<close>

record OwnerReference =
  ref_Kind :: string
  ref_UID :: string

record Container =
  cont_Name :: string
  cont_Image :: string
  cont_RequestsMemory :: rat
  cont_RequestsCpu :: rat

record ContainerStatus =
  cs_Name :: string
  cs_ImageID :: string
  cs_ContainerID :: string

record Pod =
  pod_UID :: string
  pod_OwnerReferences :: "OwnerReference list"
  pod_Labels :: "(string \<times> string) list"
  pod_NodeName :: string
  pod_Containers :: "Container list"
  pod_InitContainers :: "Container list"
  pod_Phase :: string
  pod_ContainerStatuses :: "ContainerStatus list"
  pod_InitContainerStatuses :: "ContainerStatus list"

definition PodRunning :: string where
  "PodRunning = ''Running''"

definition PodPending :: string where
  "PodPending = ''Pending''"

record Node =
  node_Name :: string
  node_Architecture :: string
  node_AllocatableMemory :: rat
  node_AllocatableCpu :: rat

record ReplicaSet =
  rs_UID :: string
  rs_OwnerReferences :: "OwnerReference list"

record Job =
  job_UID :: string
  job_OwnerReferences :: "OwnerReference list"

datatype Object =
    PodObject Pod
  | NodeObject Node
  | JobObject Job
  | ReplicaSetObject ReplicaSet
  | OtherObject string

record ScannedImage =
  si_ID :: string
  si_Architecture :: string
  si_ResourceIDs :: "string list"

text \<open>
  Modelled from the spec: the declaration of \<open>castai.ScannedImage\<close> and its method
  \<open>CacheKey\<close> are not among the sources; the spec gives the keying rule
  "cache key = imageID+architecture", the same as \<open>image.cacheKey\<close>.
\<close>

definition CacheKey :: "ScannedImage \<Rightarrow> string" where
  "CacheKey s = si_ID s @ si_Architecture s"

text \<open>
  The two fields of \<open>castai.TelemetryResponse\<close> that \<open>Observe\<close> reads. (The declaration
  in castai/telemetry_types.go is of another revision and has no \<open>ScannedImages\<close>.)
\<close>

record TelemetryResponse =
  FullResync :: bool
  ScannedImages :: "ScannedImage list"


section \<open>The delta state (imagescan/delta.go)\<close>

record pod =
  pod_id :: string
  requestCPU :: rat
  requestMemory :: rat

text \<open>
  The controller reads a field \<open>os\<close> of \<open>node\<close> and the fields \<open>ownerChangedAt\<close>,
  \<open>resourcesUpdatedAt\<close> and \<open>lastRemoteSyncAt\<close> of \<open>image\<close>; the records carry them next to
  the fields that delta.go declares, with Go's zero values where delta.go creates a value.
\<close>

record node =
  name :: string
  architecture :: string
  os :: string
  allocatableMem :: rat
  allocatableCPU :: rat
  pods :: "(string, pod) gomap"

record imageNode =
  node_podIDs :: "string set"

record imageOwner =
  owner_podIDs :: "string set"

record ownerChanges =
  addedIDS :: "string list"
  removedIDs :: "string list"

record image =
  image_id :: string
  image_name :: string
  image_architecture :: string
  containerRuntime :: string
  owners :: "(string, imageOwner) gomap"
  image_nodes :: "(string, imageNode) gomap"
  ownerChanges :: ownerChanges
  scanned :: bool
  lastScanErr :: "error option"
  failures :: nat
  retryBackoff :: Backoff
  nextScan :: time
  ownerChangedAt :: time
  resourcesUpdatedAt :: time
  lastRemoteSyncAt :: time

text \<open>
  \<open>failures\<close> is a Go \<open>int\<close> that starts at 0 and is only ever incremented: a natural
  number. The channel \<open>remoteImagesUpdate\<close> (capacity 3) is the list of the values sent and
  not yet received; the event channel \<open>queue\<close> is drained by the controller, which hands
  each event to \<open>upsert\<close> or \<open>delete\<close>.
\<close>

record deltaState =
  remoteImagesUpdate :: "ScannedImage list list"
  images :: "(string, image) gomap"
  rs :: "(string, ReplicaSet) gomap"
  jobs :: "(string, Job) gomap"
  nodes :: "(string, node) gomap"
  hostFSDisabled :: bool

definition newImage :: "string \<Rightarrow> string \<Rightarrow> image" where
  "newImage imageID arch =
     \<lparr>image_id = imageID, image_name = [], image_architecture = arch,
      containerRuntime = [], owners = [], image_nodes = [],
      ownerChanges = \<lparr>addedIDS = [], removedIDs = []\<rparr>,
      scanned = False, lastScanErr = None, failures = 0,
      retryBackoff = \<lparr>Duration = Second * 60, Factor = 3, Steps = 8, Cap = 0\<rparr>,
      nextScan = 0, ownerChangedAt = 0, resourcesUpdatedAt = 0, lastRemoteSyncAt = 0\<rparr>"

definition buildImageMap :: "ScannedImage list \<Rightarrow> (string, image) gomap" where
  "buildImageMap scannedImages =
     foldl (\<lambda>imgs scannedImage.
        let ownrs = foldl (\<lambda>m i. AList.update i \<lparr>owner_podIDs = {}\<rparr> m) []
                      (si_ResourceIDs scannedImage);
            img = newImage (si_ID scannedImage) (si_Architecture scannedImage);
            img = img\<lparr>scanned := True\<rparr>;
            img = img\<lparr>owners := ownrs\<rparr>;
            img = img\<lparr>image_architecture := si_Architecture scannedImage\<rparr>
        in AList.update (CacheKey scannedImage) img imgs) [] scannedImages"

definition NewDeltaState :: "ScannedImage list \<Rightarrow> deltaState" where
  "NewDeltaState scannedImages =
     \<lparr>remoteImagesUpdate = [], images = buildImageMap scannedImages,
      rs = [], jobs = [], nodes = [], hostFSDisabled = False\<rparr>"

text \<open>
  \<open>Observe\<close> sends on the buffered channel. A send on a full channel blocks until the
  controller has received a value: \<open>None\<close>.
\<close>

definition Observe :: "deltaState \<Rightarrow> TelemetryResponse \<Rightarrow> deltaState option" where
  "Observe d response =
     (if FullResync response \<and> 0 < length (ScannedImages response)
      then (if length (remoteImagesUpdate d) < 3
            then Some (d\<lparr>remoteImagesUpdate := remoteImagesUpdate d @ [ScannedImages response]\<rparr>)
            else None)
      else Some d)"

definition updateImagesFromRemote :: "deltaState \<Rightarrow> ScannedImage list \<Rightarrow> deltaState" where
  "updateImagesFromRemote d imgs = d\<lparr>images := buildImageMap imgs\<rparr>"

text \<open>
  Modelled from the spec: the controller loop that receives from \<open>remoteImagesUpdate\<close> is
  not among the sources ("remote-sync rehydration replaces the entire map under the same
  keying rule"); it takes the oldest pending value off the channel and hands it to
  \<open>updateImagesFromRemote\<close>.
\<close>

definition receiveRemoteImagesUpdate :: "deltaState \<Rightarrow> deltaState" where
  "receiveRemoteImagesUpdate d =
     (case remoteImagesUpdate d of
        [] \<Rightarrow> d
      | scannedImages # rest \<Rightarrow>
          updateImagesFromRemote (d\<lparr>remoteImagesUpdate := rest\<rparr>) scannedImages)"

definition cacheKey :: "image \<Rightarrow> string" where
  "cacheKey img = image_id img @ image_architecture img"

definition isUnused :: "image \<Rightarrow> bool" where
  "isUnused img = (length (image_nodes img) = 0 \<and> length (owners img) = 0)"

definition availableMemory :: "node \<Rightarrow> rat" where
  "availableMemory n =
     foldl (\<lambda>result p. result - requestMemory p) (0 + allocatableMem n) (lo_Values (pods n))"

definition availableCPU :: "node \<Rightarrow> rat" where
  "availableCPU n =
     foldl (\<lambda>result p. result - requestCPU p) (0 + allocatableCPU n) (lo_Values (pods n))"

definition sumPodRequestMemory :: "Pod \<Rightarrow> rat" where
  "sumPodRequestMemory v =
     foldl (\<lambda>result container. result + cont_RequestsMemory container) 0 (pod_Containers v)"

definition sumPodRequestCPU :: "Pod \<Rightarrow> rat" where
  "sumPodRequestCPU v =
     foldl (\<lambda>result container. result + cont_RequestsCpu container) 0 (pod_Containers v)"

text \<open>
  The runtime constants of the image collector's configuration package, which is not
  among the sources, are taken to be the scheme names that \<open>getContainerRuntime\<close> matches.
\<close>

definition RuntimeDocker :: string where
  "RuntimeDocker = ''docker''"

definition RuntimeContainerd :: string where
  "RuntimeContainerd = ''containerd''"

definition getContainerRuntime :: "string \<Rightarrow> string" where
  "getContainerRuntime containerID =
     (let parts = strings_Split containerID ''://''
      in if length parts \<noteq> 2 then []
         else let cr = hd parts
              in if cr = ''docker'' then RuntimeDocker
                 else if cr = ''containerd'' then RuntimeContainerd
                 else [])"

definition getPodOwnerID ::
  "Pod \<Rightarrow> (string, ReplicaSet) gomap \<Rightarrow> (string, Job) gomap \<Rightarrow> string" where
  "getPodOwnerID p rsMap jobsMap =
     (case pod_OwnerReferences p of
        [] \<Rightarrow> pod_UID p
      | ref # _ \<Rightarrow>
          if ref_Kind ref = ''ReplicaSet'' then
            (case find (\<lambda>val. rs_UID val = ref_UID ref) (lo_Values rsMap) of
               Some val \<Rightarrow>
                 (case rs_OwnerReferences val of
                    r # _ \<Rightarrow> ref_UID r
                  | [] \<Rightarrow> ref_UID ref)
             | None \<Rightarrow> ref_UID ref)
          else if ref_Kind ref = ''Job'' then
            (case find (\<lambda>val. job_UID val = ref_UID ref) (lo_Values jobsMap) of
               Some val \<Rightarrow>
                 (case job_OwnerReferences val of
                    r # _ \<Rightarrow> ref_UID r
                  | [] \<Rightarrow> ref_UID ref)
             | None \<Rightarrow> ref_UID ref)
          else ref_UID ref)"

definition updateNodeUsage :: "deltaState \<Rightarrow> Node \<Rightarrow> deltaState" where
  "updateNodeUsage d v =
     (let n = (case map_of (nodes d) (node_Name v) of
                 Some n \<Rightarrow> n
               | None \<Rightarrow> \<lparr>name = node_Name v, architecture = node_Architecture v, os = [],
                           allocatableMem = 0, allocatableCPU = 0, pods = []\<rparr>);
          n = n\<lparr>allocatableMem := node_AllocatableMemory v\<rparr>;
          n = n\<lparr>allocatableCPU := node_AllocatableCpu v\<rparr>
      in d\<lparr>nodes := AList.update (node_Name v) n (nodes d)\<rparr>)"

definition updateNodesUsageFromPod :: "deltaState \<Rightarrow> Pod \<Rightarrow> deltaState" where
  "updateNodesUsageFromPod d v =
     (if pod_Phase v = PodRunning \<or> pod_Phase v = PodPending then
        let n = (case map_of (nodes d) (pod_NodeName v) of
                   Some n \<Rightarrow> n
                 | None \<Rightarrow> \<lparr>name = pod_NodeName v, architecture = [], os = [],
                             allocatableMem = 0, allocatableCPU = 0, pods = []\<rparr>);
            p = (case map_of (pods n) (pod_UID v) of
                   Some p \<Rightarrow> p
                 | None \<Rightarrow> \<lparr>pod_id = pod_UID v, requestCPU = 0, requestMemory = 0\<rparr>);
            p = p\<lparr>requestMemory := sumPodRequestMemory v\<rparr>;
            p = p\<lparr>requestCPU := sumPodRequestCPU v\<rparr>;
            n = n\<lparr>pods := AList.update (pod_UID v) p (pods n)\<rparr>
        in d\<lparr>nodes := AList.update (pod_NodeName v) n (nodes d)\<rparr>
      else
        (case map_of (nodes d) (pod_NodeName v) of
           Some n \<Rightarrow>
             d\<lparr>nodes := AList.update (pod_NodeName v)
                          (n\<lparr>pods := AList.delete (pod_UID v) (pods n)\<rparr>) (nodes d)\<rparr>
         | None \<Rightarrow> d))"

text \<open>The body of the loop of \<open>upsertImages\<close> over the containers of a pod.\<close>

definition upsertImages_container ::
  "Pod \<Rightarrow> ContainerStatus list \<Rightarrow> string \<Rightarrow> string \<Rightarrow> deltaState \<Rightarrow> Container \<Rightarrow> deltaState"
  where
  "upsertImages_container p containerStatuses podID ownerResourceID d cont =
     (case find (\<lambda>v. cs_Name v = cont_Name cont) containerStatuses of
        None \<Rightarrow> d
      | Some cs \<Rightarrow>
          if cs_ImageID cs = [] then d
          else if cont_Image cont = [] then d
          else
            let nodeName = pod_NodeName p;
                arch = (case map_of (nodes d) nodeName of
                          Some n \<Rightarrow> architecture n
                        | None \<Rightarrow> ''amd64'');
                key = cs_ImageID cs @ arch;
                img = (case map_of (images d) key of
                         Some img \<Rightarrow> img
                       | None \<Rightarrow> newImage (cs_ImageID cs) arch);
                img = img\<lparr>image_id := cs_ImageID cs\<rparr>;
                img = img\<lparr>image_name := cont_Image cont\<rparr>;
                img = img\<lparr>containerRuntime := getContainerRuntime (cs_ContainerID cs)\<rparr>;
                img = (case map_of (owners img) ownerResourceID of
                         Some owner \<Rightarrow>
                           img\<lparr>owners := AList.update ownerResourceID
                                 (owner\<lparr>owner_podIDs := insert podID (owner_podIDs owner)\<rparr>)
                                 (owners img)\<rparr>
                       | None \<Rightarrow>
                           let img = img\<lparr>owners := AList.update ownerResourceID
                                       \<lparr>owner_podIDs = {podID}\<rparr> (owners img)\<rparr>
                           in if scanned img
                              then img\<lparr>ownerChanges := (ownerChanges img)
                                     \<lparr>addedIDS := addedIDS (ownerChanges img) @ [ownerResourceID]\<rparr>\<rparr>
                              else img);
                img = (case map_of (image_nodes img) nodeName of
                         Some imgNode \<Rightarrow>
                           img\<lparr>image_nodes := AList.update nodeName
                                 (imgNode\<lparr>node_podIDs := insert podID (node_podIDs imgNode)\<rparr>)
                                 (image_nodes img)\<rparr>
                       | None \<Rightarrow>
                           img\<lparr>image_nodes := AList.update nodeName
                                 \<lparr>node_podIDs = {podID}\<rparr> (image_nodes img)\<rparr>)
            in d\<lparr>images := AList.update key img (images d)\<rparr>)"

definition upsertImages :: "deltaState \<Rightarrow> Pod \<Rightarrow> deltaState" where
  "upsertImages d p =
     (if pod_Phase p \<noteq> PodRunning then d
      else
        let containers = pod_Containers p @ pod_InitContainers p;
            containerStatuses = pod_ContainerStatuses p @ pod_InitContainerStatuses p;
            podID = pod_UID p;
            ownerResourceID = getPodOwnerID p (rs d) (jobs d)
        in foldl (upsertImages_container p containerStatuses podID ownerResourceID)
             d containers)"

definition handlePodUpdate :: "deltaState \<Rightarrow> Pod \<Rightarrow> deltaState" where
  "handlePodUpdate d v = updateNodesUsageFromPod (upsertImages d v) v"

text \<open>
  The body of the loop of \<open>handlePodDelete\<close> over the images: the image after the pod has
  been taken out of its node and owner entries. The loop then drops the image from the map
  when it has neither nodes nor owners left.
\<close>

definition handlePodDelete_image :: "deltaState \<Rightarrow> Pod \<Rightarrow> image \<Rightarrow> image" where
  "handlePodDelete_image d p img =
     (let podID = pod_UID p;
          img = (case map_of (image_nodes img) (pod_NodeName p) of
                   Some n \<Rightarrow>
                     img\<lparr>image_nodes := AList.update (pod_NodeName p)
                           (n\<lparr>node_podIDs := node_podIDs n - {podID}\<rparr>) (image_nodes img)\<rparr>
                 | None \<Rightarrow> img);
          ownerResourceID = getPodOwnerID p (rs d) (jobs d)
      in (case map_of (owners img) ownerResourceID of
            Some owner \<Rightarrow>
              let owner = owner\<lparr>owner_podIDs := owner_podIDs owner - {podID}\<rparr>
              in if owner_podIDs owner = {} then
                   let img = img\<lparr>owners := AList.delete ownerResourceID (owners img)\<rparr>
                   in if scanned img
                      then img\<lparr>ownerChanges := (ownerChanges img)
                             \<lparr>removedIDs := removedIDs (ownerChanges img) @ [ownerResourceID]\<rparr>\<rparr>
                      else img
                 else img\<lparr>owners := AList.update ownerResourceID owner (owners img)\<rparr>
          | None \<Rightarrow> img))"

definition handlePodDelete :: "deltaState \<Rightarrow> Pod \<Rightarrow> deltaState" where
  "handlePodDelete d p =
     (let imgs = filter (\<lambda>(imgKey, img).
                     \<not> (length (image_nodes img) = 0 \<and> length (owners img) = 0))
                   (map (\<lambda>(imgKey, img). (imgKey, handlePodDelete_image d p img)) (images d));
          d = d\<lparr>images := imgs\<rparr>
      in (case map_of (nodes d) (pod_NodeName p) of
            Some n \<Rightarrow>
              d\<lparr>nodes := AList.update (pod_NodeName p)
                    (n\<lparr>pods := AList.delete (pod_UID p) (pods n)\<rparr>) (nodes d)\<rparr>
          | None \<Rightarrow> d))"

definition handleNodeDelete :: "deltaState \<Rightarrow> Node \<Rightarrow> deltaState" where
  "handleNodeDelete d v =
     (let d = d\<lparr>nodes := AList.delete (node_Name v) (nodes d)\<rparr>;
          imgs = filter (\<lambda>(imgKey, img). \<not> isUnused img)
                   (map (\<lambda>(imgKey, img).
                           (imgKey, img\<lparr>image_nodes := AList.delete (node_Name v) (image_nodes img)\<rparr>))
                      (images d))
      in d\<lparr>images := imgs\<rparr>)"

text \<open>
  \<open>controller.ObjectKey\<close> is not among the sources: \<open>upsert\<close> and \<open>delete\<close> take it as the
  parameter \<open>ObjectKey\<close>.
\<close>

definition upsert :: "(Object \<Rightarrow> string) \<Rightarrow> deltaState \<Rightarrow> Object \<Rightarrow> deltaState" where
  "upsert ObjectKey d o' =
     (let key = ObjectKey o'
      in case o' of
           PodObject v \<Rightarrow> handlePodUpdate d v
         | NodeObject v \<Rightarrow> updateNodeUsage d v
         | JobObject v \<Rightarrow> d\<lparr>jobs := AList.update key v (jobs d)\<rparr>
         | ReplicaSetObject v \<Rightarrow> d\<lparr>rs := AList.update key v (rs d)\<rparr>
         | OtherObject k \<Rightarrow> d)"

definition delete :: "(Object \<Rightarrow> string) \<Rightarrow> deltaState \<Rightarrow> Object \<Rightarrow> deltaState" where
  "delete ObjectKey d o' =
     (let key = ObjectKey o'
      in case o' of
           PodObject v \<Rightarrow> handlePodDelete d v
         | NodeObject v \<Rightarrow> handleNodeDelete d v
         | JobObject v \<Rightarrow> d\<lparr>jobs := AList.delete key (jobs d)\<rparr>
         | ReplicaSetObject v \<Rightarrow> d\<lparr>rs := AList.delete key (rs d)\<rparr>
         | OtherObject k \<Rightarrow> d)"

definition getImages :: "deltaState \<Rightarrow> image list" where
  "getImages d = lo_Values (images d)"

definition nodeCount :: "deltaState \<Rightarrow> nat" where
  "nodeCount d = length (nodes d)"

definition isHostFsDisabled :: "deltaState \<Rightarrow> bool" where
  "isHostFsDisabled d = hostFSDisabled d"

definition updateImage :: "deltaState \<Rightarrow> image \<Rightarrow> (image \<Rightarrow> image) \<Rightarrow> deltaState" where
  "updateImage d i change =
     (case map_of (images d) (cacheKey i) of
        Some img \<Rightarrow> d\<lparr>images := AList.update (cacheKey i) (change img) (images d)\<rparr>
      | None \<Rightarrow> d)"

text \<open>
  \<open>setImageScanError\<close> reads the clock; \<open>now\<close> is the value of \<open>time.Now().UTC()\<close>. The
  error passed is never nil (the function calls its \<open>Error\<close> method).
\<close>

definition setImageScanError :: "deltaState \<Rightarrow> image \<Rightarrow> error \<Rightarrow> time \<Rightarrow> deltaState" where
  "setImageScanError d i err now =
     (case map_of (images d) (cacheKey i) of
        None \<Rightarrow> d
      | Some img \<Rightarrow>
          let img = img\<lparr>failures := failures img + 1\<rparr>;
              img = img\<lparr>lastScanErr := Some err\<rparr>;
              (img, d) =
                (if strings_Contains (Error err) ''no such file or directory''
                    \<or> strings_Contains (Error err) ''failed to get the layer''
                 then (img\<lparr>lastScanErr := Some errImageScanLayerNotFound\<rparr>,
                       d\<lparr>hostFSDisabled := True\<rparr>)
                 else if strings_Contains (Error err) ''UNAUTHORIZED''
                    \<or> strings_Contains (Error err) ''MANIFEST_UNKNOWN''
                    \<or> strings_Contains (Error err) ''DENIED''
                 then (img\<lparr>lastScanErr := Some errPrivateImage\<rparr>, d)
                 else (img, d));
              (delay, backoff) = Step (retryBackoff img);
              img = img\<lparr>retryBackoff := backoff, nextScan := Add now delay\<rparr>
          in d\<lparr>images := AList.update (cacheKey i) img (images d)\<rparr>)"

text \<open>The loop of \<open>findBestNode\<close> that collects the candidates, in the order of the names.\<close>

fun findBestNode_candidates ::
  "deltaState \<Rightarrow> string list \<Rightarrow> rat \<Rightarrow> rat \<Rightarrow> node list" where
  "findBestNode_candidates d [] requiredMemory requiredCPU = []"
| "findBestNode_candidates d (nodeName # rest) requiredMemory requiredCPU =
     (case map_of (nodes d) nodeName of
        Some n \<Rightarrow>
          if availableMemory n \<ge> requiredMemory \<and> availableCPU n \<ge> requiredCPU
          then n # findBestNode_candidates d rest requiredMemory requiredCPU
          else findBestNode_candidates d rest requiredMemory requiredCPU
      | None \<Rightarrow> findBestNode_candidates d rest requiredMemory requiredCPU)"

definition findBestNode :: "deltaState \<Rightarrow> string list \<Rightarrow> rat \<Rightarrow> rat \<Rightarrow> error + string" where
  "findBestNode d nodeNames requiredMemory requiredCPU =
     (if length (nodes d) = 0 then Inl errNoCandidates
      else
        let candidates = findBestNode_candidates d nodeNames requiredMemory requiredCPU
        in if length candidates = 0 then Inl errNoCandidates
           else
             let candidates =
                   sort_Slice (\<lambda>ci cj. availableCPU ci > allocatableCPU cj) candidates
             in Inr (name (hd candidates)))"


section \<open>The scan scheduler (imagescan controller)\<close>

text \<open>
  The scan modes of the image collector's configuration package, which is not among the
  sources; only their being different matters below.
\<close>

definition ModeRemote :: string where
  "ModeRemote = ''remote''"

definition ModeHostFS :: string where
  "ModeHostFS = ''hostfs''"

text \<open>
  \<open>config.ImageScan\<close>: \<open>MemoryRequest\<close> and \<open>CPURequest\<close> hold the decimal that
  \<open>resource.MustParse\<close> reads from the configured strings.
\<close>

record ImageScan =
  Mode :: string
  MemoryRequest :: rat
  CPURequest :: rat
  MaxConcurrentScans :: int

record Controller =
  delta :: deltaState
  cfg :: ImageScan
  fullSnapshotSent :: bool

definition isImagePrivate :: "image \<Rightarrow> bool" where
  "isImagePrivate v = errors_Is (lastScanErr v) errPrivateImage"

definition isImagePending :: "image \<Rightarrow> time \<Rightarrow> bool" where
  "isImagePending v now =
     (\<not> scanned v \<and>
      length (owners v) > 0 \<and>
      \<not> isImagePrivate v \<and>
      (IsZero (nextScan v) \<or> Before (nextScan v) now))"

text \<open>\<open>now\<close> is the value of the controller's \<open>timeGetter\<close>.\<close>

definition findPendingImages :: "Controller \<Rightarrow> time \<Rightarrow> image list" where
  "findPendingImages s now =
     (let imgs = getImages (delta s);
          pendingImages = filter (\<lambda>v. isImagePending v now) imgs
      in sort_Slice (\<lambda>a b. failures a < failures b) pendingImages)"

definition concurrentScansNumber :: "Controller \<Rightarrow> int" where
  "concurrentScansNumber s =
     (if nodeCount (delta s) = 1 then 1 else MaxConcurrentScans (cfg s))"

text \<open>
  The selection of \<open>scheduleScans\<close>: the pending images cut to the concurrency budget.
  Slicing with a negative bound panics.
\<close>

definition scheduleScans_imagesForScan :: "Controller \<Rightarrow> time \<Rightarrow> error + image list" where
  "scheduleScans_imagesForScan s now =
     (let pendingImages = findPendingImages s now;
          concurrentScans = concurrentScansNumber s
      in if int (length pendingImages) > concurrentScans
         then (if concurrentScans < 0
               then Inl (runtimePanic ''slice bounds out of range'')
               else Inr (take (nat concurrentScans) pendingImages))
         else Inr pendingImages)"

fun filterWindowsNodes :: "deltaState \<Rightarrow> string list \<Rightarrow> error + string list" where
  "filterWindowsNodes d [] = Inr []"
| "filterWindowsNodes d (nm # names) =
     (case map_of (nodes d) nm of
        None \<Rightarrow> Inl (runtimePanic ''nil pointer dereference'')
      | Some n \<Rightarrow>
          (case filterWindowsNodes d names of
             Inl e \<Rightarrow> Inl e
           | Inr filtered \<Rightarrow>
               if os n \<noteq> ''linux'' then Inr filtered else Inr (nm # filtered)))"

text \<open>
  \<open>filterCastAIManagedNodes\<close> belongs to a version of the delta state that is not among the
  sources; \<open>findBestNodeAndMode\<close> takes it as a parameter. The result is the resolved node
  and mode, or the error.
\<close>

definition findBestNodeAndMode ::
  "(deltaState \<Rightarrow> string list \<Rightarrow> string list) \<Rightarrow> Controller \<Rightarrow> image \<Rightarrow> error + (string \<times> string)"
  where
  "findBestNodeAndMode filterCastAIManagedNodes s img =
     (let mode = Mode (cfg s);
          mode = (if lastScanErr img \<noteq> None \<and> errors_Is (lastScanErr img) errImageScanLayerNotFound
                  then ModeRemote else mode);
          selected =
            (if mode = ModeHostFS then
               let nodeNames = lo_Keys (image_nodes img)
               in if length nodeNames = 0
                  then Inl (errorString ''image with empty nodes'')
                  else
                    let nodeNames = filterCastAIManagedNodes (delta s) nodeNames
                    in if length nodeNames = 0
                       then Inr (ModeRemote, lo_Keys (nodes (delta s)))
                       else Inr (mode, nodeNames)
             else Inr (mode, lo_Keys (nodes (delta s))))
      in case selected of
           Inl e \<Rightarrow> Inl e
         | Inr (mode, nodeNames) \<Rightarrow>
             (case filterWindowsNodes (delta s) nodeNames of
                Inl e \<Rightarrow> Inl e
              | Inr nodeNames \<Rightarrow>
                  (case findBestNode (delta s) nodeNames (MemoryRequest (cfg s)) (CPURequest (cfg s)) of
                     Inr resolvedNode \<Rightarrow> Inr (resolvedNode, mode)
                   | Inl err \<Rightarrow>
                       if errors_Is (Some err) errNoCandidates \<and> mode = ModeHostFS
                       then
                         (case findBestNode (delta s) (lo_Keys (nodes (delta s)))
                                 (MemoryRequest (cfg s)) (CPURequest (cfg s)) of
                            Inl err \<Rightarrow> Inl err
                          | Inr resolvedNode \<Rightarrow> Inr (resolvedNode, ModeRemote))
                       else Inl err)))"

text \<open>
  The status report. \<open>ImageScanStatusPending\<close> is a constant of the \<open>castai\<close> package whose
  declaration is not among the sources; the empty string is the zero status.
\<close>

definition ImageScanStatusPending :: string where
  "ImageScanStatusPending = ''pending''"

record castai_Image =
  ID :: string
  Architecture :: string
  ResourceIDs :: "string list"
  ImageName :: string
  Status :: string

record UpdateImagesStatusRequest =
  FullSnapshot :: bool
  Images :: "castai_Image list"

text \<open>
  \<open>updateImageStatuses\<close>. The remote call \<open>client.UpdateImageStatus\<close> is the parameter
  \<open>UpdateImageStatus\<close>, which gives the error the call returns (if any) on a report. The
  result is the error returned, the controller afterwards and the reports sent. The images
  are held by pointer, so stamping the reported ones stamps them in the image map.
\<close>

definition updateImageStatuses ::
  "(UpdateImagesStatusRequest \<Rightarrow> error option) \<Rightarrow> Controller \<Rightarrow> time
     \<Rightarrow> error option \<times> Controller \<times> UpdateImagesStatusRequest list" where
  "updateImageStatuses UpdateImageStatus s now =
     (let reported = (\<lambda>item. if fullSnapshotSent s
                               then After (ownerChangedAt item) (resourcesUpdatedAt item)
                               else True);
          imgs = filter reported (getImages (delta s))
      in if length imgs = 0 then (None, s, [])
         else
           let imagesChanges =
                 map (\<lambda>img. \<lparr>ID = image_id img, Architecture = image_architecture img,
                              ResourceIDs = lo_Keys (owners img), ImageName = image_name img,
                              Status = (if isImagePending img now
                                        then ImageScanStatusPending else [])\<rparr>) imgs;
               report = \<lparr>FullSnapshot = fullSnapshotSent s, Images = imagesChanges\<rparr>
           in case UpdateImageStatus report of
                Some err \<Rightarrow> (Some err, s, [report])
              | None \<Rightarrow>
                  (None,
                   s\<lparr>delta := (delta s)\<lparr>images :=
                        map (\<lambda>(k, img). if reported img
                                         then (k, img\<lparr>resourcesUpdatedAt := now\<rparr>)
                                         else (k, img)) (images (delta s))\<rparr>,
                     fullSnapshotSent := True\<rparr>,
                   [report]))"

section \<open>Owner resolution of the kube controller\<close>

text \<open>
  The deployments cached by the kube controller, with their label selector. The library
  functions \<open>metav1.LabelSelectorAsSelector\<close> and \<open>Selector.Matches\<close> are the parameter
  \<open>LabelSelectorAsSelector\<close>: it turns a deployment's selector into an error or into the
  predicate on label sets that \<open>Matches\<close> decides.
\<close>

record 'sel Deployment =
  dep_UID :: string
  dep_Selector :: 'sel

record 'sel kube_Controller =
  replicaSets :: "(string, ReplicaSet) gomap"
  deployments :: "(string, 'sel Deployment) gomap"
  kube_jobs :: "(string, Job) gomap"

text \<open>\<open>findNextOwnerID\<close> is given the owner references and the UID of its object.\<close>

definition findNextOwnerID :: "OwnerReference list \<Rightarrow> string \<Rightarrow> string \<Rightarrow> string option" where
  "findNextOwnerID refs uid expectedKind =
     (if length refs = 0 then Some uid
      else (case find (\<lambda>ref. ref_Kind ref = expectedKind) refs of
              Some ref \<Rightarrow> Some (ref_UID ref)
            | None \<Rightarrow> None))"

fun findOwnerFromDeployments ::
  "('sel \<Rightarrow> error + ((string \<times> string) list \<Rightarrow> bool)) \<Rightarrow> (string, 'sel Deployment) gomap
     \<Rightarrow> Pod \<Rightarrow> string option" where
  "findOwnerFromDeployments LabelSelectorAsSelector [] p = None"
| "findOwnerFromDeployments LabelSelectorAsSelector ((k, deployment) # items) p =
     (case LabelSelectorAsSelector (dep_Selector deployment) of
        Inl err \<Rightarrow> findOwnerFromDeployments LabelSelectorAsSelector items p
      | Inr sel \<Rightarrow>
          if sel (pod_Labels p) then Some (dep_UID deployment)
          else findOwnerFromDeployments LabelSelectorAsSelector items p)"

definition GetPodOwnerID ::
  "('sel \<Rightarrow> error + ((string \<times> string) list \<Rightarrow> bool)) \<Rightarrow> 'sel kube_Controller \<Rightarrow> Pod \<Rightarrow> string"
  where
  "GetPodOwnerID LabelSelectorAsSelector c p =
     (case pod_OwnerReferences p of
        [] \<Rightarrow> pod_UID p
      | ref # _ \<Rightarrow>
          if ref_Kind ref = ''DaemonSet'' \<or> ref_Kind ref = ''StatefulSet'' then ref_UID ref
          else if ref_Kind ref = ''ReplicaSet'' then
            (let found = map_of (replicaSets c) (ref_UID ref);
                 fast = (case found of
                           Some rset \<Rightarrow>
                             findNextOwnerID (rs_OwnerReferences rset) (rs_UID rset) ''Deployment''
                         | None \<Rightarrow> None)
             in case fast of
                  Some owner \<Rightarrow> owner
                | None \<Rightarrow>
                    (case findOwnerFromDeployments LabelSelectorAsSelector (deployments c) p of
                       Some owner \<Rightarrow> owner
                     | None \<Rightarrow>
                         (case found of
                            Some rset \<Rightarrow> rs_UID rset
                          | None \<Rightarrow> pod_UID p)))
          else if ref_Kind ref = ''Job'' then
            (case map_of (kube_jobs c) (ref_UID ref) of
               Some job \<Rightarrow>
                 (case findNextOwnerID (job_OwnerReferences job) (job_UID job) ''CronJob'' of
                    Some owner \<Rightarrow> owner
                  | None \<Rightarrow> job_UID job)
             | None \<Rightarrow> pod_UID p)
          else pod_UID p)"


section \<open>Event processing, repeated failures and example states\<close>

text \<open>
  \<open>handleDelta\<close> of the controller, on the delta state it owns, and the processing of a
  sequence of queued events one after the other.
\<close>

datatype Event = EventAdd | EventUpdate | EventDelete

definition handleDelta ::
  "(Object \<Rightarrow> string) \<Rightarrow> deltaState \<Rightarrow> Event \<Rightarrow> Object \<Rightarrow> deltaState" where
  "handleDelta ObjectKey d event o' =
     (case event of
        EventAdd \<Rightarrow> upsert ObjectKey d o'
      | EventUpdate \<Rightarrow> upsert ObjectKey d o'
      | EventDelete \<Rightarrow> delete ObjectKey d o')"

definition handleDeltas ::
  "(Object \<Rightarrow> string) \<Rightarrow> deltaState \<Rightarrow> (Event \<times> Object) list \<Rightarrow> deltaState" where
  "handleDeltas ObjectKey d items =
     foldl (\<lambda>d (event, obj). handleDelta ObjectKey d event obj) d items"

text \<open>No image returned by \<open>getImages\<close> is unused (without owners and without nodes).\<close>

definition noUnusedImages :: "deltaState \<Rightarrow> bool" where
  "noUnusedImages d = list_all (\<lambda>img. \<not> isUnused img) (getImages d)"

text \<open>
  Successive scan failures of one image: \<open>setImageScanError\<close> called for each pair of an
  error and the time of the failure.
\<close>

definition setImageScanErrors ::
  "deltaState \<Rightarrow> image \<Rightarrow> (error \<times> time) list \<Rightarrow> deltaState" where
  "setImageScanErrors d i fs = foldl (\<lambda>d (err, now). setImageScanError d i err now) d fs"

text \<open>
  The retry state of a new image after \<open>n\<close> calls of \<open>Step\<close>, and the delay that the next
  call returns.
\<close>

definition nthBackoff :: "nat \<Rightarrow> Backoff" where
  "nthBackoff n = ((\<lambda>b. snd (Step b)) ^^ n) (retryBackoff (newImage [] []))"

definition nthDelay :: "nat \<Rightarrow> Duration" where
  "nthDelay n = fst (Step (nthBackoff n))"

text \<open>The image that \<open>buildImageMap\<close> stores for one scanned image.\<close>

definition buildImageMap_image :: "ScannedImage \<Rightarrow> image" where
  "buildImageMap_image scannedImage =
     (newImage (si_ID scannedImage) (si_Architecture scannedImage))
       \<lparr>scanned := True,
        owners := foldl (\<lambda>m i. AList.update i \<lparr>owner_podIDs = {}\<rparr> m) []
                    (si_ResourceIDs scannedImage),
        image_architecture := si_Architecture scannedImage\<rparr>"

text \<open>
  Example states. Node \<open>a\<close> has 4 CPUs of which one pod requests 1; node \<open>b\<close> has 10 CPUs of
  which one pod requests 8. The image runs on node \<open>a\<close> and is owned by one deployment.
\<close>

definition example_nodeA :: node where
  "example_nodeA =
     \<lparr>name = ''a'', architecture = ''amd64'', os = ''linux'', allocatableMem = 8,
      allocatableCPU = 4,
      pods = [(''p1'', \<lparr>pod_id = ''p1'', requestCPU = 1, requestMemory = 0\<rparr>)]\<rparr>"

definition example_nodeB :: node where
  "example_nodeB =
     \<lparr>name = ''b'', architecture = ''amd64'', os = ''linux'', allocatableMem = 8,
      allocatableCPU = 10,
      pods = [(''p2'', \<lparr>pod_id = ''p2'', requestCPU = 8, requestMemory = 0\<rparr>)]\<rparr>"

definition example_image :: image where
  "example_image =
     (newImage ''sha256:aa'' ''amd64'')
       \<lparr>image_name := ''nginx'',
        owners := [(''dep1'', \<lparr>owner_podIDs = {''p1''}\<rparr>)],
        image_nodes := [(''a'', \<lparr>node_podIDs = {''p1''}\<rparr>)]\<rparr>"

definition example_delta :: deltaState where
  "example_delta =
     \<lparr>remoteImagesUpdate = [], images = [(''sha256:aaamd64'', example_image)],
      rs = [], jobs = [],
      nodes = [(''b'', example_nodeB), (''a'', example_nodeA)], hostFSDisabled = False\<rparr>"

definition example_controller :: Controller where
  "example_controller =
     \<lparr>delta = example_delta,
      cfg = \<lparr>Mode = ModeHostFS, MemoryRequest = 1, CPURequest = 1, MaxConcurrentScans = 3\<rparr>,
      fullSnapshotSent = False\<rparr>"

text \<open>
  A second image that has failed once, a controller with a budget of one scan that tracks
  both images on two nodes, a controller with a configured maximum of three scans that
  tracks both images on the single node \<open>a\<close>, an image whose last scan failed for a missing
  layer, and a controller that has sent its full snapshot and tracks one image whose owners
  changed since.
\<close>

definition example_image_failed :: image where
  "example_image_failed = example_image\<lparr>image_id := ''sha256:bb'', failures := 1\<rparr>"

definition example_controller_failed :: Controller where
  "example_controller_failed =
     \<lparr>delta = example_delta\<lparr>images := [(''sha256:bbamd64'', example_image_failed),
                                        (''sha256:aaamd64'', example_image)]\<rparr>,
      cfg = \<lparr>Mode = ModeHostFS, MemoryRequest = 1, CPURequest = 1, MaxConcurrentScans = 1\<rparr>,
      fullSnapshotSent = True\<rparr>"

definition example_controller_one_node :: Controller where
  "example_controller_one_node =
     \<lparr>delta = example_delta\<lparr>images := [(''sha256:bbamd64'', example_image_failed),
                                        (''sha256:aaamd64'', example_image)],
                             nodes := [(''a'', example_nodeA)]\<rparr>,
      cfg = \<lparr>Mode = ModeHostFS, MemoryRequest = 1, CPURequest = 1, MaxConcurrentScans = 3\<rparr>,
      fullSnapshotSent = True\<rparr>"

definition example_image_layer :: image where
  "example_image_layer = example_image\<lparr>lastScanErr := Some errImageScanLayerNotFound\<rparr>"

definition example_image_changed :: image where
  "example_image_changed = example_image\<lparr>ownerChangedAt := 10, resourcesUpdatedAt := 5\<rparr>"

definition example_controller_sent :: Controller where
  "example_controller_sent =
     \<lparr>delta = example_delta\<lparr>images := [(''sha256:bbamd64'', example_image_failed),
                                        (''sha256:aaamd64'', example_image_changed)]\<rparr>,
      cfg = \<lparr>Mode = ModeHostFS, MemoryRequest = 1, CPURequest = 1, MaxConcurrentScans = 3\<rparr>,
      fullSnapshotSent = True\<rparr>"

text \<open>A telemetry response that asks for a full resync with one scanned image.\<close>

definition example_response :: TelemetryResponse where
  "example_response =
     \<lparr>FullResync = True,
      ScannedImages = [\<lparr>si_ID = ''sha256:cc'', si_Architecture = ''arm64'',
                        si_ResourceIDs = [''dep2'']\<rparr>]\<rparr>"

text \<open>
  The pod \<open>p1\<close> of the example image on node \<open>a\<close>, the Kubernetes node, a job, two seeds
  for \<open>NewDeltaState\<close> (an image without and one with a resource id) and an object key.
\<close>

definition example_pod :: Pod where
  "example_pod =
     \<lparr>pod_UID = ''p1'',
      pod_OwnerReferences = [\<lparr>ref_Kind = ''StatefulSet'', ref_UID = ''dep1''\<rparr>],
      pod_Labels = [(''app'', ''web'')],
      pod_NodeName = ''a'',
      pod_Containers = [\<lparr>cont_Name = ''main'', cont_Image = ''nginx'',
                          cont_RequestsMemory = 0, cont_RequestsCpu = 1\<rparr>],
      pod_InitContainers = [],
      pod_Phase = PodRunning,
      pod_ContainerStatuses = [\<lparr>cs_Name = ''main'', cs_ImageID = ''sha256:aa'',
                                 cs_ContainerID = ''containerd://c1''\<rparr>],
      pod_InitContainerStatuses = []\<rparr>"

definition example_Node :: Node where
  "example_Node =
     \<lparr>node_Name = ''a'', node_Architecture = ''amd64'', node_AllocatableMemory = 8,
      node_AllocatableCpu = 4\<rparr>"

definition example_Job :: Job where
  "example_Job = \<lparr>job_UID = ''j1'', job_OwnerReferences = []\<rparr>"

definition example_seed_no_owner :: "ScannedImage list" where
  "example_seed_no_owner =
     [\<lparr>si_ID = ''sha256:dd'', si_Architecture = ''amd64'', si_ResourceIDs = []\<rparr>]"

definition example_seed :: "ScannedImage list" where
  "example_seed =
     [\<lparr>si_ID = ''sha256:aa'', si_Architecture = ''amd64'', si_ResourceIDs = [''dep1'']\<rparr>]"

definition example_ObjectKey :: "Object \<Rightarrow> string" where
  "example_ObjectKey obj =
     (case obj of
        PodObject v \<Rightarrow> ''Pod/'' @ pod_UID v
      | NodeObject v \<Rightarrow> ''Node/'' @ node_Name v
      | JobObject v \<Rightarrow> ''Job/'' @ job_UID v
      | ReplicaSetObject v \<Rightarrow> ''ReplicaSet/'' @ rs_UID v
      | OtherObject k \<Rightarrow> k)"

text \<open>
  The same pod owned by the replica set \<open>rs1\<close>; a selector that only has match labels; and
  three caches of the kube controller: the replica set without owners, nothing cached, and
  the replica set owned by a rollout, each of the first and last with a deployment that
  selects the pod.
\<close>

definition example_rs_pod :: Pod where
  "example_rs_pod =
     example_pod\<lparr>pod_OwnerReferences := [\<lparr>ref_Kind = ''ReplicaSet'', ref_UID = ''rs1''\<rparr>]\<rparr>"

definition example_matchLabels ::
  "(string \<times> string) list \<Rightarrow> error + ((string \<times> string) list \<Rightarrow> bool)" where
  "example_matchLabels sel =
     Inr (\<lambda>labels. list_all (\<lambda>(k, v). map_of labels k = Some v) sel)"

definition example_kube_bare_rs :: "(string \<times> string) list kube_Controller" where
  "example_kube_bare_rs =
     \<lparr>replicaSets = [(''rs1'', \<lparr>rs_UID = ''rs1'', rs_OwnerReferences = []\<rparr>)],
      deployments = [(''dep9'', \<lparr>dep_UID = ''dep9'', dep_Selector = [(''app'', ''web'')]\<rparr>)],
      kube_jobs = []\<rparr>"

definition example_kube_empty :: "(string \<times> string) list kube_Controller" where
  "example_kube_empty = \<lparr>replicaSets = [], deployments = [], kube_jobs = []\<rparr>"

definition example_kube_rollout :: "(string \<times> string) list kube_Controller" where
  "example_kube_rollout =
     \<lparr>replicaSets = [(''rs1'', \<lparr>rs_UID = ''rs1'',
                         rs_OwnerReferences = [\<lparr>ref_Kind = ''Rollout'', ref_UID = ''ro1''\<rparr>]\<rparr>)],
      deployments = [(''dep9'', \<lparr>dep_UID = ''dep9'', dep_Selector = [(''app'', ''web'')]\<rparr>)],
      kube_jobs = []\<rparr>"

section \<open>Library facts\<close>

lemmas example_defs =
  example_nodeA_def example_nodeB_def example_image_def example_delta_def
  example_controller_def

lemma strings_HasPrefix_iff: "strings_HasPrefix s p \<longleftrightarrow> (\<exists>post. s = p @ post)"
  by (induction s p rule: strings_HasPrefix.induct) auto

text \<open>\<open>strings_Contains\<close> decides whether the second string occurs inside the first.\<close>

lemma strings_Contains_iff:
  "strings_Contains s sub \<longleftrightarrow> (\<exists>pre post. s = pre @ sub @ post)"
proof (induction s)
  case Nil
  then show ?case by auto
next
  case (Cons c cs)
  show ?case
  proof
    assume "strings_Contains (c # cs) sub"
    then consider "strings_HasPrefix (c # cs) sub" | "strings_Contains cs sub" by auto
    then show "\<exists>pre post. c # cs = pre @ sub @ post"
    proof cases
      case 1
      then obtain post where "c # cs = sub @ post" by (auto simp: strings_HasPrefix_iff)
      then have "c # cs = [] @ sub @ post" by simp
      then show ?thesis by blast
    next
      case 2
      then obtain pre post where "cs = pre @ sub @ post" using Cons.IH by auto
      then have "c # cs = (c # pre) @ sub @ post" by simp
      then show ?thesis by blast
    qed
  next
    assume "\<exists>pre post. c # cs = pre @ sub @ post"
    then obtain pre post where e: "c # cs = pre @ sub @ post" by auto
    show "strings_Contains (c # cs) sub"
    proof (cases pre)
      case Nil
      then have "strings_HasPrefix (c # cs) sub" using e by (auto simp: strings_HasPrefix_iff)
      then show ?thesis by simp
    next
      case (Cons a pre')
      then have "cs = pre' @ sub @ post" using e by simp
      then have "strings_Contains cs sub" using Cons.IH by blast
      then show ?thesis by simp
    qed
  qed
qed

lemma mset_insert_left: "mset (insert_left lt x ys) = add_mset x (mset ys)"
  by (induction ys) auto

lemma mset_foldl_insert_left:
  "mset (foldl (\<lambda>acc x. insert_left lt x acc) acc xs) = mset acc + mset xs"
  by (induction xs arbitrary: acc) (auto simp: mset_insert_left)

text \<open>\<open>sort_Slice\<close> permutes its argument, whatever the comparison.\<close>

lemma mset_sort_Slice: "mset (sort_Slice lt xs) = mset xs"
  by (simp add: sort_Slice_def mset_foldl_insert_left)

lemma set_sort_Slice: "set (sort_Slice lt xs) = set xs"
  using mset_sort_Slice [of lt xs] by (metis set_mset_mset)

lemma length_sort_Slice: "length (sort_Slice lt xs) = length xs"
  using mset_sort_Slice [of lt xs] by (metis size_mset)

lemma sort_Slice_Nil_iff: "sort_Slice lt xs = [] \<longleftrightarrow> xs = []"
  using length_sort_Slice [of lt xs] by (metis length_0_conv)

lemma set_insert_left: "set (insert_left lt x ys) = insert x (set ys)"
  using mset_insert_left [of lt x ys] by (metis set_mset_mset set_mset_add_mset_insert)

text \<open>With the comparison of a key, the result is in ascending order of the key.\<close>

lemma sorted_insert_left:
  fixes f :: "'a \<Rightarrow> nat"
  assumes "sorted_wrt (\<lambda>a b. f b \<le> f a) ys"
  shows "sorted_wrt (\<lambda>a b. f b \<le> f a) (insert_left (\<lambda>a b. f a < f b) x ys)"
  using assms
  by (induction ys) (auto simp: set_insert_left)

lemma sorted_foldl_insert_left:
  fixes f :: "'a \<Rightarrow> nat"
  assumes "sorted_wrt (\<lambda>a b. f b \<le> f a) acc"
  shows "sorted_wrt (\<lambda>a b. f b \<le> f a)
           (foldl (\<lambda>acc x. insert_left (\<lambda>a b. f a < f b) x acc) acc xs)"
  using assms
  by (induction xs arbitrary: acc) (auto simp: sorted_insert_left)

lemma sorted_sort_Slice:
  fixes f :: "'a \<Rightarrow> nat"
  shows "sorted_wrt (\<lambda>a b. f a \<le> f b) (sort_Slice (\<lambda>a b. f a < f b) xs)"
  using sorted_foldl_insert_left [of f "[]" xs]
  by (simp add: sort_Slice_def sorted_wrt_rev)

lemma sorted_take_zeros:
  fixes f :: "'a \<Rightarrow> nat"
  assumes "sorted_wrt (\<lambda>a b. f a \<le> f b) xs" "n \<le> length (filter (\<lambda>v. f v = 0) xs)"
  shows "\<forall>x \<in> set (take n xs). f x = 0"
  using assms
proof (induction xs arbitrary: n)
  case Nil
  then show ?case by simp
next
  case (Cons x xs)
  show ?case
  proof (cases "f x = 0")
    case True
    show ?thesis
    proof (cases n)
      case 0
      then show ?thesis by simp
    next
      case (Suc m)
      with Cons.prems True have "m \<le> length (filter (\<lambda>v. f v = 0) xs)" by simp
      moreover from Cons.prems have "sorted_wrt (\<lambda>a b. f a \<le> f b) xs" by simp
      ultimately have "\<forall>x \<in> set (take m xs). f x = 0" by (rule Cons.IH[rotated])
      then show ?thesis using True Suc by simp
    qed
  next
    case False
    with Cons.prems have "\<forall>y \<in> set xs. f y \<noteq> 0" by auto
    then have "filter (\<lambda>v. f v = 0) xs = []" by (auto simp: filter_empty_conv)
    with Cons.prems False have "n = 0" by simp
    then show ?thesis by simp
  qed
qed

lemma set_update_subset: "set (AList.update k v al) \<subseteq> insert (k, v) (set al)"
  by (induction al) auto

section \<open>Pending selection\<close>

text \<open>
  C3: an image is pending at a time \<open>now\<close> exactly when it is not scanned, has at least one
  owner, its last scan error is not the private-image error, and its \<open>nextScan\<close> is zero
  (unset) or before \<open>now\<close>. Hence an image whose last scan error is the private-image error
  is pending at no time.
\<close>

theorem isImagePending_iff:
  "(isImagePending v now \<longleftrightarrow>
      (\<not> scanned v \<and> owners v \<noteq> [] \<and> \<not> errors_Is (lastScanErr v) errPrivateImage
       \<and> (nextScan v = 0 \<or> nextScan v < now)))
   \<and> (lastScanErr v = Some errPrivateImage \<longrightarrow> (\<forall>t. \<not> isImagePending v t))"
  by (auto simp: isImagePending_def isImagePrivate_def IsZero_def Before_def errors_Is_def)

theorem isImagePending_iff_witness:
  "isImagePending example_image 5
   \<and> lastScanErr (example_image\<lparr>lastScanErr := Some errPrivateImage\<rparr>) = Some errPrivateImage
   \<and> \<not> isImagePending (example_image\<lparr>lastScanErr := Some errPrivateImage\<rparr>) 5"
  using isImagePending_iff [of example_image 5]
    isImagePending_iff [of "example_image\<lparr>lastScanErr := Some errPrivateImage\<rparr>" 5]
  by (simp add: example_defs newImage_def errors_Is_def)


section \<open>Recording a scan failure\<close>

text \<open>What \<open>setImageScanError\<close> does to the state when the image is tracked.\<close>

lemma setImageScanError_tracked:
  assumes "map_of (images d) (cacheKey i) = Some img"
  shows "setImageScanError d i err now =
    d\<lparr>images := AList.update (cacheKey i)
         (img\<lparr>failures := failures img + 1,
              lastScanErr := Some
                (if strings_Contains (Error err) ''no such file or directory''
                    \<or> strings_Contains (Error err) ''failed to get the layer''
                 then errImageScanLayerNotFound
                 else if strings_Contains (Error err) ''UNAUTHORIZED''
                    \<or> strings_Contains (Error err) ''MANIFEST_UNKNOWN''
                    \<or> strings_Contains (Error err) ''DENIED''
                 then errPrivateImage else err),
              retryBackoff := snd (Step (retryBackoff img)),
              nextScan := Add now (fst (Step (retryBackoff img)))\<rparr>) (images d),
      hostFSDisabled := (strings_Contains (Error err) ''no such file or directory''
                    \<or> strings_Contains (Error err) ''failed to get the layer'' \<or> hostFSDisabled d)\<rparr>"
  using assms
  by (simp add: setImageScanError_def Let_def split_beta)

text \<open>
  C4: for a tracked image and any error, \<open>setImageScanError\<close> adds one to the failure
  counter, sets \<open>nextScan\<close> to the time of the call plus the delay of the retry backoff
  (which it steps), and stores as last error: the layer-not-found error when the message
  contains "no such file or directory" or "failed to get the layer" (then the host-filesystem
  mode is disabled for the whole state); otherwise the private-image error when the message
  contains "UNAUTHORIZED", "MANIFEST_UNKNOWN" or "DENIED"; otherwise the error itself. The
  host-filesystem flag is set in the first case only.
\<close>

theorem setImageScanError_classifies:
  assumes "map_of (images d) (cacheKey i) = Some img"
  shows "map_of (images (setImageScanError d i err now)) (cacheKey i) =
      Some (img\<lparr>failures := failures img + 1,
              lastScanErr := Some
                (if strings_Contains (Error err) ''no such file or directory''
                    \<or> strings_Contains (Error err) ''failed to get the layer''
                 then errImageScanLayerNotFound
                 else if strings_Contains (Error err) ''UNAUTHORIZED''
                    \<or> strings_Contains (Error err) ''MANIFEST_UNKNOWN''
                    \<or> strings_Contains (Error err) ''DENIED''
                 then errPrivateImage else err),
              retryBackoff := snd (Step (retryBackoff img)),
              nextScan := now + fst (Step (retryBackoff img))\<rparr>)
    \<and> hostFSDisabled (setImageScanError d i err now) =
        (strings_Contains (Error err) ''no such file or directory''
         \<or> strings_Contains (Error err) ''failed to get the layer'' \<or> hostFSDisabled d)"
  by (simp add: setImageScanError_tracked [OF assms] update_conv' Add_def)

theorem setImageScanError_classifies_witness:
  "map_of (images example_delta) (cacheKey example_image) = Some example_image
   \<and> map_of (images (setImageScanError example_delta example_image
         (errorString ''open /var/lib/x: no such file or directory'') 1000)) (cacheKey example_image)
      = Some (example_image\<lparr>failures := 1, lastScanErr := Some errImageScanLayerNotFound,
            retryBackoff := \<lparr>Duration = 180 * Second, Factor = 3, Steps = 7, Cap = 0\<rparr>,
            nextScan := 1000 + 60 * Second\<rparr>)
   \<and> hostFSDisabled (setImageScanError example_delta example_image
         (errorString ''open /var/lib/x: no such file or directory'') 1000)"
proof -
  have h: "map_of (images example_delta) (cacheKey example_image) = Some example_image"
    by (simp add: example_defs cacheKey_def newImage_def)
  have s: "Step (retryBackoff example_image)
      = (60 * Second, \<lparr>Duration = 180 * Second, Factor = 3, Steps = 7, Cap = 0\<rparr>)"
    by (simp add: example_defs newImage_def Step_def Second_def truncate_Duration_def)
  have c: "strings_Contains ''open /var/lib/x: no such file or directory'' ''no such file or directory''"
    by simp
  have f0: "failures example_image = 0"
    by (simp add: example_defs newImage_def)
  show ?thesis
    using h f0 setImageScanError_classifies [OF h, of "errorString ''open /var/lib/x: no such file or directory''" 1000]
    by (simp add: s c del: strings_Contains.simps)
qed

section \<open>Retry backoff\<close>

lemma Step_newImage_backoff:
  "Step \<lparr>Duration = 60000000000 * 3 ^ min n 8, Factor = 3, Steps = 8 - int (min n 8), Cap = 0\<rparr>
   = (60000000000 * 3 ^ min n 8,
      \<lparr>Duration = 60000000000 * 3 ^ min (Suc n) 8, Factor = 3,
       Steps = 8 - int (min (Suc n) 8), Cap = 0\<rparr>)"
proof (cases "n < 8")
  case True
  have fl: "truncate_Duration ((of_int (60000000000 * 3 ^ n) :: rat) * 3) = 60000000000 * 3 ^ n * 3"
  proof -
    have e: "(of_int (60000000000 * 3 ^ n) :: rat) * 3 = of_int (60000000000 * 3 ^ n * 3)" by simp
    have "(0::rat) \<le> of_int (60000000000 * 3 ^ n * 3)" by simp
    then show ?thesis unfolding e truncate_Duration_def by (simp only: floor_of_int if_True)
  qed
  from True have m: "min n 8 = n" "min (Suc n) 8 = Suc n" by simp_all
  show ?thesis unfolding m using True fl by (simp add: Step_def Let_def)
next
  case False
  then have m: "min n 8 = 8" "min (Suc n) 8 = 8" by simp_all
  show ?thesis unfolding m by (simp add: Step_def)
qed

lemma nthBackoff_Suc: "nthBackoff (Suc n) = snd (Step (nthBackoff n))"
  by (simp add: nthBackoff_def)

lemma nthBackoff_closed:
  "nthBackoff n =
     \<lparr>Duration = 60000000000 * 3 ^ min n 8, Factor = 3, Steps = 8 - int (min n 8), Cap = 0\<rparr>"
proof (induction n)
  case 0
  show ?case by (simp add: nthBackoff_def newImage_def Second_def)
next
  case (Suc n)
  show ?case by (simp only: nthBackoff_Suc Suc.IH Step_newImage_backoff snd_conv)
qed

lemma nthDelay_closed: "nthDelay n = 60000000000 * 3 ^ min n 8"
  by (simp only: nthDelay_def nthBackoff_closed Step_newImage_backoff fst_conv)

lemma setImageScanErrors_backoff:
  assumes "map_of (images d) (cacheKey i) = Some img" "retryBackoff img = nthBackoff k"
  shows "\<exists>img'. map_of (images (setImageScanErrors d i fs)) (cacheKey i) = Some img'
           \<and> retryBackoff img' = nthBackoff (k + length fs)
           \<and> failures img' = failures img + length fs"
  using assms
proof (induction fs arbitrary: d img k)
  case Nil
  then show ?case by (simp add: setImageScanErrors_def)
next
  case (Cons f fs)
  obtain err now where f: "f = (err, now)" by (cases f)
  let ?d1 = "setImageScanError d i err now"
  obtain img1 where 1: "map_of (images ?d1) (cacheKey i) = Some img1"
    and 2: "retryBackoff img1 = snd (Step (retryBackoff img))"
    and 3: "failures img1 = failures img + 1"
    by (simp add: setImageScanError_tracked [OF Cons.prems(1)] update_conv')
  from 2 Cons.prems(2) have 4: "retryBackoff img1 = nthBackoff (Suc k)" by (simp add: nthBackoff_Suc)
  from Cons.IH [OF 1 4] obtain img' where
    "map_of (images (setImageScanErrors ?d1 i fs)) (cacheKey i) = Some img'"
    "retryBackoff img' = nthBackoff (Suc k + length fs)"
    "failures img' = failures img1 + length fs" by blast
  then show ?case using f 3 by (simp add: setImageScanErrors_def)
qed


lemma setImageScanErrors_snoc:
  "setImageScanErrors d i (fs @ [(err, now)]) = setImageScanError (setImageScanErrors d i fs) i err now"
  by (simp add: setImageScanErrors_def)

text \<open>
  C5: with the backoff of a new image (60 s, factor 3, 8 steps), the delay set by the failure
  that follows \<open>length fs\<close> earlier failures of the image (\<open>nextScan\<close> minus the time of the
  failure) is \<open>nthDelay (length fs)\<close>; the delays never decrease from one failure to the
  next, and from the ninth failure on the delay stays at the value \<open>60 s * 3^8\<close>.
\<close>

theorem retry_delays_nondecreasing_capped:
  assumes "map_of (images d) (cacheKey i) = Some img"
    and "retryBackoff img = retryBackoff (newImage a b)"
  shows "(\<exists>img'. map_of (images (setImageScanErrors d i (fs @ [(err, now)]))) (cacheKey i) = Some img'
            \<and> nextScan img' - now = nthDelay (length fs)
            \<and> failures img' = failures img + length fs + 1)
    \<and> nthDelay n \<le> nthDelay (Suc n)
    \<and> (8 \<le> n \<longrightarrow> nthDelay n = nthDelay 8)
    \<and> nthDelay n = 60 * Second * 3 ^ min n 8"
proof -
  have b0: "retryBackoff img = nthBackoff 0"
    using assms(2) by (simp add: nthBackoff_def newImage_def)
  from setImageScanErrors_backoff [OF assms(1) b0, of fs]
  obtain img1 where 1: "map_of (images (setImageScanErrors d i fs)) (cacheKey i) = Some img1"
    and 2: "retryBackoff img1 = nthBackoff (length fs)"
    and 3: "failures img1 = failures img + length fs" by auto
  have first: "\<exists>img'. map_of (images (setImageScanErrors d i (fs @ [(err, now)]))) (cacheKey i) = Some img'
            \<and> nextScan img' - now = nthDelay (length fs)
            \<and> failures img' = failures img + length fs + 1"
    by (simp add: setImageScanErrors_snoc setImageScanError_tracked [OF 1] update_conv' Add_def 2 3
        nthDelay_def)
  have mono: "nthDelay n \<le> nthDelay (Suc n)"
  proof -
    have "min n 8 \<le> min (Suc n) 8" by simp
    then have "(3::int) ^ min n 8 \<le> 3 ^ min (Suc n) 8" by (rule power_increasing) simp
    then show ?thesis by (simp only: nthDelay_closed)
  qed
  have cap: "8 \<le> n \<longrightarrow> nthDelay n = nthDelay 8"
    by (simp add: nthDelay_closed min_def)
  have closed: "nthDelay n = 60 * Second * 3 ^ min n 8"
    by (simp add: nthDelay_closed Second_def)
  show ?thesis using first mono cap closed by blast
qed

theorem retry_delays_nondecreasing_capped_witness:
  "map_of (images example_delta) (cacheKey example_image) = Some example_image
   \<and> retryBackoff example_image = retryBackoff (newImage [] [])
   \<and> (\<exists>img'. map_of (images (setImageScanErrors example_delta example_image
                  [(errorString ''timeout'', 1000), (errorString ''timeout'', 5000)]))
                (cacheKey example_image) = Some img'
            \<and> nextScan img' - 5000 = 180 * Second \<and> failures img' = 2)
   \<and> nthDelay 9 = nthDelay 8"
proof -
  have h1: "map_of (images example_delta) (cacheKey example_image) = Some example_image"
    by (simp add: example_defs cacheKey_def newImage_def)
  have h2: "retryBackoff example_image = retryBackoff (newImage [] [])"
    by (simp add: example_defs newImage_def)
  have f0: "failures example_image = 0"
    by (simp add: example_defs newImage_def)
  note t1 = retry_delays_nondecreasing_capped [OF h1 h2, of "[(errorString ''timeout'', 1000)]"
        "errorString ''timeout''" 5000 1]
  note t9 = retry_delays_nondecreasing_capped [OF h1 h2, of "[]" "errorString ''timeout''" 5000 9]
  from t1 obtain img' where
    "map_of (images (setImageScanErrors example_delta example_image
        [(errorString ''timeout'', 1000), (errorString ''timeout'', 5000)]))
      (cacheKey example_image) = Some img'"
    "nextScan img' - 5000 = nthDelay 1" "failures img' = failures example_image + 1 + 1"
    by auto
  moreover from t1 have "nthDelay 1 = 180 * Second" by simp
  moreover from t9 have "nthDelay 9 = nthDelay 8" by simp
  ultimately show ?thesis using h1 h2 f0 by simp
qed

section \<open>Scheduling: order and budget\<close>

lemma findPendingImages_sorted:
  "sorted_wrt (\<lambda>a b. failures a \<le> failures b) (findPendingImages s now)"
  by (simp add: findPendingImages_def Let_def sorted_sort_Slice)

lemma findPendingImages_mset:
  "mset (findPendingImages s now) = mset (filter (\<lambda>v. isImagePending v now) (getImages (delta s)))"
  by (simp add: findPendingImages_def Let_def mset_sort_Slice)

lemma length_filter_mset_eq:
  "mset xs = mset ys \<Longrightarrow> length (filter P xs) = length (filter P ys)"
  by (metis mset_filter size_mset)

text \<open>
  C6: in a scheduling pass the pending images are put in ascending order of their failure
  count (a permutation of the pending images) and then cut to the concurrency budget;
  whenever at least as many pending images have failure count 0 as the budget, every image
  selected for dispatch has failure count 0; the budget is the configured maximum, except
  that it is 1 when the map of tracked nodes has exactly one entry (which is what
  \<open>nodeCount\<close> counts).
\<close>

theorem pending_sorted_and_cut_to_budget:
  "sorted_wrt (\<lambda>a b. failures a \<le> failures b) (findPendingImages s now)
   \<and> mset (findPendingImages s now)
       = mset (filter (\<lambda>v. isImagePending v now) (getImages (delta s)))
   \<and> (0 \<le> concurrentScansNumber s \<longrightarrow>
        scheduleScans_imagesForScan s now
          = Inr (take (nat (concurrentScansNumber s)) (findPendingImages s now)))
   \<and> (concurrentScansNumber s
          \<le> int (length (filter (\<lambda>v. failures v = 0 \<and> isImagePending v now) (getImages (delta s))))
        \<longrightarrow> scheduleScans_imagesForScan s now = Inr imgs
        \<longrightarrow> (\<forall>img \<in> set imgs. failures img = 0))
   \<and> concurrentScansNumber s
       = (if length (nodes (delta s)) = 1 then 1 else MaxConcurrentScans (cfg s))
   \<and> nodeCount (delta s) = length (nodes (delta s))"
proof -
  let ?p = "findPendingImages s now"
  let ?c = "concurrentScansNumber s"
  have cut: "0 \<le> ?c \<longrightarrow> scheduleScans_imagesForScan s now = Inr (take (nat ?c) ?p)"
    by (auto simp: scheduleScans_imagesForScan_def Let_def)
  have zeros: "(\<forall>img \<in> set imgs. failures img = 0)"
    if le: "?c \<le> int (length (filter (\<lambda>v. failures v = 0 \<and> isImagePending v now) (getImages (delta s))))"
      and r: "scheduleScans_imagesForScan s now = Inr imgs"
  proof -
    have "filter (\<lambda>v. failures v = 0 \<and> isImagePending v now) (getImages (delta s))
        = filter (\<lambda>v. failures v = 0) (filter (\<lambda>v. isImagePending v now) (getImages (delta s)))"
      by (simp add: conj_commute)
    then have cnt: "length (filter (\<lambda>v. failures v = 0 \<and> isImagePending v now) (getImages (delta s)))
        = length (filter (\<lambda>v. failures v = 0) ?p)"
      using length_filter_mset_eq [OF findPendingImages_mset, of "\<lambda>v. failures v = 0" s now] by simp
    from r have nonneg: "0 \<le> ?c"
      by (auto simp: scheduleScans_imagesForScan_def Let_def split: if_splits)
    with cut r have imgs: "imgs = take (nat ?c) ?p" by simp
    from le cnt nonneg have "nat ?c \<le> length (filter (\<lambda>v. failures v = 0) ?p)" by simp
    with sorted_take_zeros [OF findPendingImages_sorted, of "nat ?c" s now] imgs
    show ?thesis by simp
  qed
  have budget: "?c = (if length (nodes (delta s)) = 1 then 1 else MaxConcurrentScans (cfg s))"
    by (simp add: concurrentScansNumber_def nodeCount_def)
  have count: "nodeCount (delta s) = length (nodes (delta s))"
    by (simp add: nodeCount_def)
  from zeros have zeros': "?c
          \<le> int (length (filter (\<lambda>v. failures v = 0 \<and> isImagePending v now) (getImages (delta s))))
        \<longrightarrow> scheduleScans_imagesForScan s now = Inr imgs
        \<longrightarrow> (\<forall>img \<in> set imgs. failures img = 0)" by blast
  show ?thesis
    by (intro conjI findPendingImages_sorted findPendingImages_mset cut zeros' budget count)
qed

theorem pending_sorted_and_cut_to_budget_witness:
  "length (nodes (delta example_controller_one_node)) = 1
   \<and> MaxConcurrentScans (cfg example_controller_one_node) = 3
   \<and> concurrentScansNumber example_controller_one_node = 1
   \<and> getImages (delta example_controller_one_node) = [example_image_failed, example_image]
   \<and> isImagePending example_image_failed 5 \<and> isImagePending example_image 5
   \<and> failures example_image_failed = 1 \<and> failures example_image = 0
   \<and> findPendingImages example_controller_one_node 5 = [example_image, example_image_failed]
   \<and> scheduleScans_imagesForScan example_controller_one_node 5 = Inr [example_image]
   \<and> length (nodes (delta example_controller_failed)) = 2
   \<and> MaxConcurrentScans (cfg example_controller_failed) = 1
   \<and> concurrentScansNumber example_controller_failed = 1
   \<and> scheduleScans_imagesForScan example_controller_failed 5 = Inr [example_image]
   \<and> length (nodes (delta example_controller)) = 2
   \<and> concurrentScansNumber example_controller = 3"
proof -
  note one = pending_sorted_and_cut_to_budget [of example_controller_one_node 5 "[example_image]"]
  note two = pending_sorted_and_cut_to_budget [of example_controller_failed 5 "[example_image]"]
  note three = pending_sorted_and_cut_to_budget [of example_controller 5 "[]"]
  have n1: "length (nodes (delta example_controller_one_node)) = 1"
    "MaxConcurrentScans (cfg example_controller_one_node) = 3"
    by (simp_all add: example_controller_one_node_def example_delta_def)
  have n2: "length (nodes (delta example_controller_failed)) = 2"
    "MaxConcurrentScans (cfg example_controller_failed) = 1"
    by (simp_all add: example_controller_failed_def example_delta_def)
  have n3: "length (nodes (delta example_controller)) = 2"
    "MaxConcurrentScans (cfg example_controller) = 3"
    by (simp_all add: example_controller_def example_delta_def)
  from one have "concurrentScansNumber example_controller_one_node
      = (if length (nodes (delta example_controller_one_node)) = 1 then 1
         else MaxConcurrentScans (cfg example_controller_one_node))"
    by blast
  with n1 have c1: "concurrentScansNumber example_controller_one_node = 1" by simp
  from two have "concurrentScansNumber example_controller_failed
      = (if length (nodes (delta example_controller_failed)) = 1 then 1
         else MaxConcurrentScans (cfg example_controller_failed))"
    by blast
  with n2 have c2: "concurrentScansNumber example_controller_failed = 1" by simp
  from three have "concurrentScansNumber example_controller
      = (if length (nodes (delta example_controller)) = 1 then 1
         else MaxConcurrentScans (cfg example_controller))"
    by blast
  with n3 have c3: "concurrentScansNumber example_controller = 3" by simp
  have g1: "getImages (delta example_controller_one_node) = [example_image_failed, example_image]"
    by (simp add: example_controller_one_node_def getImages_def lo_Values_def)
  have g2: "getImages (delta example_controller_failed) = [example_image_failed, example_image]"
    by (simp add: example_controller_failed_def getImages_def lo_Values_def)
  have p: "isImagePending example_image_failed 5" "isImagePending example_image 5"
    by (simp_all add: example_image_failed_def example_image_def newImage_def isImagePending_def
        isImagePrivate_def errors_Is_def IsZero_def)
  have f: "failures example_image_failed = 1" "failures example_image = 0"
    by (simp_all add: example_image_failed_def example_image_def newImage_def)
  have s1: "findPendingImages example_controller_one_node 5 = [example_image, example_image_failed]"
    by (simp add: findPendingImages_def g1 p f sort_Slice_def)
  have s2: "findPendingImages example_controller_failed 5 = [example_image, example_image_failed]"
    by (simp add: findPendingImages_def g2 p f sort_Slice_def)
  from one have "0 \<le> concurrentScansNumber example_controller_one_node \<longrightarrow>
      scheduleScans_imagesForScan example_controller_one_node 5
        = Inr (take (nat (concurrentScansNumber example_controller_one_node))
                (findPendingImages example_controller_one_node 5))"
    by blast
  then have r1: "scheduleScans_imagesForScan example_controller_one_node 5 = Inr [example_image]"
    by (simp add: c1 s1)
  from two have "0 \<le> concurrentScansNumber example_controller_failed \<longrightarrow>
      scheduleScans_imagesForScan example_controller_failed 5
        = Inr (take (nat (concurrentScansNumber example_controller_failed))
                (findPendingImages example_controller_failed 5))"
    by blast
  then have r2: "scheduleScans_imagesForScan example_controller_failed 5 = Inr [example_image]"
    by (simp add: c2 s2)
  have z: "concurrentScansNumber example_controller_one_node
      \<le> int (length (filter (\<lambda>v. failures v = 0 \<and> isImagePending v 5)
                 (getImages (delta example_controller_one_node))))"
    by (simp add: c1 g1 p f)
  from one have "concurrentScansNumber example_controller_one_node
          \<le> int (length (filter (\<lambda>v. failures v = 0 \<and> isImagePending v 5)
                 (getImages (delta example_controller_one_node))))
        \<longrightarrow> scheduleScans_imagesForScan example_controller_one_node 5 = Inr [example_image]
        \<longrightarrow> (\<forall>img \<in> set [example_image]. failures img = 0)"
    by blast
  with z r1 have "\<forall>img \<in> set [example_image]. failures img = 0" by blast
  then have f0: "failures example_image = 0" by simp
  show ?thesis
    by (intro conjI n1 n2 n3(1) c1 c2 c3 g1 p f(1) f0 s1 r1 r2)
qed

section \<open>Placement: mode after a missing layer\<close>

lemma findBestNodeAndMode_remote:
  assumes "errors_Is (lastScanErr img) errImageScanLayerNotFound"
  shows "findBestNodeAndMode F s img =
     (case filterWindowsNodes (delta s) (lo_Keys (nodes (delta s))) of
        Inl e \<Rightarrow> Inl e
      | Inr nodeNames \<Rightarrow>
          (case findBestNode (delta s) nodeNames (MemoryRequest (cfg s)) (CPURequest (cfg s)) of
             Inl e \<Rightarrow> Inl e
           | Inr resolvedNode \<Rightarrow> Inr (resolvedNode, ModeRemote)))"
proof -
  from assms have ne: "lastScanErr img \<noteq> None" by (auto simp: errors_Is_def split: option.splits)
  have neq: "ModeRemote \<noteq> ModeHostFS" by (simp add: ModeRemote_def ModeHostFS_def)
  show ?thesis
    using assms ne neq
    by (simp add: findBestNodeAndMode_def Let_def split: sum.splits)
qed

text \<open>
  C7: for an image whose last scan error is the layer-not-found error,
  \<open>findBestNodeAndMode\<close> behaves as if the configured mode were remote, whatever the
  configured mode is: every node and mode it resolves has the remote mode, and the node is
  the best node among all tracked Linux nodes.
\<close>

theorem layer_not_found_forces_remote_mode:
  assumes "errors_Is (lastScanErr img) errImageScanLayerNotFound"
  shows "findBestNodeAndMode F s img =
       findBestNodeAndMode F (s\<lparr>cfg := (cfg s)\<lparr>Mode := ModeRemote\<rparr>\<rparr>) img
     \<and> (findBestNodeAndMode F s img = Inr (resolvedNode, mode) \<longrightarrow> mode = ModeRemote)
     \<and> findBestNodeAndMode F s img =
         (case filterWindowsNodes (delta s) (lo_Keys (nodes (delta s))) of
            Inl e \<Rightarrow> Inl e
          | Inr nodeNames \<Rightarrow>
              (case findBestNode (delta s) nodeNames (MemoryRequest (cfg s)) (CPURequest (cfg s)) of
                 Inl e \<Rightarrow> Inl e
               | Inr resolvedNode \<Rightarrow> Inr (resolvedNode, ModeRemote)))"
proof -
  note r = findBestNodeAndMode_remote [OF assms]
  have "findBestNodeAndMode F s img = findBestNodeAndMode F (s\<lparr>cfg := (cfg s)\<lparr>Mode := ModeRemote\<rparr>\<rparr>) img"
    by (simp add: r [of F s] r [of F "s\<lparr>cfg := (cfg s)\<lparr>Mode := ModeRemote\<rparr>\<rparr>"] split: sum.splits)
  moreover have "findBestNodeAndMode F s img = Inr (resolvedNode, mode) \<longrightarrow> mode = ModeRemote"
    by (auto simp: r [of F s] split: sum.splits)
  ultimately show ?thesis using r [of F s] by simp
qed

theorem layer_not_found_forces_remote_mode_witness:
  "errors_Is (lastScanErr example_image_layer) errImageScanLayerNotFound
   \<and> Mode (cfg example_controller) = ModeHostFS
   \<and> findBestNodeAndMode (\<lambda>d names. names) example_controller example_image_layer
       = Inr (''b'', ModeRemote)"
proof -
  have h: "errors_Is (lastScanErr example_image_layer) errImageScanLayerNotFound"
    by (simp add: example_image_layer_def errors_Is_def)
  have n: "nodes (delta example_controller) = [(''b'', example_nodeB), (''a'', example_nodeA)]"
    by (simp add: example_controller_def example_delta_def)
  have f: "filterWindowsNodes (delta example_controller) [''b'', ''a''] = Inr [''b'', ''a'']"
    by (simp add: n example_nodeA_def example_nodeB_def)
  have b: "findBestNode (delta example_controller) [''b'', ''a''] 1 1 = Inr ''b''"
    by (simp add: findBestNode_def n example_nodeA_def example_nodeB_def availableCPU_def
        availableMemory_def lo_Values_def sort_Slice_def)
  have c: "MemoryRequest (cfg example_controller) = 1" "CPURequest (cfg example_controller) = 1"
    "Mode (cfg example_controller) = ModeHostFS"
    by (simp_all add: example_controller_def)
  have k: "lo_Keys (nodes (delta example_controller)) = [''b'', ''a'']"
    by (simp add: n lo_Keys_def)
  from layer_not_found_forces_remote_mode [OF h, of "\<lambda>d names. names" example_controller]
  have "findBestNodeAndMode (\<lambda>d names. names) example_controller example_image_layer =
     (case filterWindowsNodes (delta example_controller) (lo_Keys (nodes (delta example_controller))) of
        Inl e \<Rightarrow> Inl e
      | Inr nodeNames \<Rightarrow>
          (case findBestNode (delta example_controller) nodeNames
                  (MemoryRequest (cfg example_controller)) (CPURequest (cfg example_controller)) of
             Inl e \<Rightarrow> Inl e
           | Inr resolvedNode \<Rightarrow> Inr (resolvedNode, ModeRemote)))"
    by blast
  also have "\<dots> = Inr (''b'', ModeRemote)"
    by (simp only: k f c b sum.case)
  finally show ?thesis using h c by simp
qed

section \<open>Node fit\<close>

text \<open>
  The candidates of \<open>findBestNode\<close> are the tracked nodes among the names given whose
  available memory and CPU reach the requirement; the function fails, with the no-candidates
  error, exactly when no node is tracked or there is no candidate; a name it returns is the
  name of a candidate.
\<close>

lemma set_findBestNode_candidates:
  "set (findBestNode_candidates d names m c) =
     {n. \<exists>nm \<in> set names. map_of (nodes d) nm = Some n
           \<and> m \<le> availableMemory n \<and> c \<le> availableCPU n}"
  by (induction names) (auto split: option.splits)

lemma findBestNode_error_iff:
  "findBestNode d names m c = Inl e \<longleftrightarrow>
     e = errNoCandidates \<and>
     (nodes d = [] \<or> \<not> (\<exists>nm \<in> set names. \<exists>n. map_of (nodes d) nm = Some n
                              \<and> m \<le> availableMemory n \<and> c \<le> availableCPU n))"
proof -
  have "findBestNode_candidates d names m c = [] \<longleftrightarrow>
     \<not> (\<exists>nm \<in> set names. \<exists>n. map_of (nodes d) nm = Some n
           \<and> m \<le> availableMemory n \<and> c \<le> availableCPU n)"
  proof -
    have "findBestNode_candidates d names m c = []
        \<longleftrightarrow> set (findBestNode_candidates d names m c) = {}"
      by simp
    also have "\<dots> \<longleftrightarrow> \<not> (\<exists>nm \<in> set names. \<exists>n. map_of (nodes d) nm = Some n
           \<and> m \<le> availableMemory n \<and> c \<le> availableCPU n)"
      unfolding set_findBestNode_candidates by blast
    finally show ?thesis .
  qed
  then show ?thesis by (auto simp: findBestNode_def Let_def)
qed

lemma findBestNode_sound:
  assumes "findBestNode d names m c = Inr r"
  shows "\<exists>nm \<in> set names. \<exists>n. map_of (nodes d) nm = Some n \<and> name n = r
            \<and> m \<le> availableMemory n \<and> c \<le> availableCPU n"
proof -
  let ?cs = "findBestNode_candidates d names m c"
  let ?ss = "sort_Slice (\<lambda>ci cj. availableCPU ci > allocatableCPU cj) ?cs"
  from assms have ne: "?cs \<noteq> []" and r: "r = name (hd ?ss)"
    by (auto simp: findBestNode_def Let_def split: if_splits)
  from ne have "?ss \<noteq> []" by (simp add: sort_Slice_Nil_iff)
  then have "hd ?ss \<in> set ?ss" by simp
  then have "hd ?ss \<in> set ?cs" by (simp add: set_sort_Slice)
  then show ?thesis using r by (auto simp: set_findBestNode_candidates)
qed

text \<open>
  C1: \<open>findBestNode\<close> is to return, among the candidates that satisfy both requirements, a
  node of maximal available CPU. Its sort compares the available CPU of one node with the
  allocatable CPU of the other. With node \<open>a\<close> (4 CPUs, 1 requested by its pod, 3 available)
  and node \<open>b\<close> (10 CPUs, 8 requested, 2 available), both satisfying a request of 1 CPU and
  1 byte of memory, the call with the candidates \<open>b, a\<close> returns \<open>b\<close>, which has less CPU
  available than \<open>a\<close>.
\<close>

theorem findBestNode_returns_less_available_CPU:
  "findBestNode example_delta [''b'', ''a''] 1 1 = Inr ''b''
   \<and> map_of (nodes example_delta) ''a'' = Some example_nodeA
   \<and> map_of (nodes example_delta) ''b'' = Some example_nodeB
   \<and> availableCPU example_nodeA = 3 \<and> availableMemory example_nodeA = 8
   \<and> availableCPU example_nodeB = 2 \<and> availableMemory example_nodeB = 8"
  by (simp add: findBestNode_def example_delta_def example_nodeA_def example_nodeB_def
      availableCPU_def availableMemory_def lo_Values_def sort_Slice_def)

section \<open>Status reporting\<close>

text \<open>
  Any report that \<open>updateImageStatuses\<close> sends carries the flag \<open>fullSnapshotSent\<close> as its
  \<open>FullSnapshot\<close> tag and lists all images when the flag is unset, else the images whose
  owners changed after their last report; a failed send leaves the controller as it was, a
  successful one stamps the reported images and sets the flag.
\<close>

lemma updateImageStatuses_tag:
  assumes "updateImageStatuses U s now = (e, s', reports)" "report \<in> set reports"
  shows "FullSnapshot report = fullSnapshotSent s"
  using assms
  by (auto simp: updateImageStatuses_def Let_def split: if_splits option.splits)

lemma updateImageStatuses_list:
  assumes "updateImageStatuses U s now = (e, s', reports)" "report \<in> set reports"
  shows "map ID (Images report) =
     map image_id (filter (\<lambda>item. fullSnapshotSent s \<longrightarrow> After (ownerChangedAt item) (resourcesUpdatedAt item))
        (getImages (delta s)))"
  using assms
  by (auto simp: updateImageStatuses_def Let_def comp_def split: if_splits option.splits
      intro!: arg_cong [where f = "map image_id"] filter_cong)

lemma updateImageStatuses_failure:
  assumes "updateImageStatuses U s now = (Some err, s', reports)"
  shows "s' = s"
  using assms
  by (auto simp: updateImageStatuses_def Let_def split: if_splits option.splits)

lemma updateImageStatuses_success:
  assumes "updateImageStatuses U s now = (None, s', [report])"
  shows "fullSnapshotSent s' \<and>
     getImages (delta s') =
       map (\<lambda>img. if fullSnapshotSent s \<longrightarrow> After (ownerChangedAt img) (resourcesUpdatedAt img)
                   then img\<lparr>resourcesUpdatedAt := now\<rparr> else img) (getImages (delta s))"
  using assms
  by (auto simp: updateImageStatuses_def Let_def getImages_def lo_Values_def
      split: if_splits option.splits)

text \<open>
  C8: the report of \<open>updateImageStatuses\<close> is to be tagged as full exactly when the full
  image list is sent. The tag is the flag \<open>fullSnapshotSent\<close> itself: a controller that has
  not yet sent a full snapshot sends its complete image list tagged \<open>FullSnapshot = False\<close>,
  and a controller that has sent one sends only the changed image (one of its two) tagged
  \<open>FullSnapshot = True\<close>.
\<close>

theorem updateImageStatuses_full_list_tagged_incremental:
  "snd (snd (updateImageStatuses (\<lambda>report. None) example_controller 5)) =
     [\<lparr>FullSnapshot = False,
       Images = [\<lparr>ID = ''sha256:aa'', Architecture = ''amd64'', ResourceIDs = [''dep1''],
                  ImageName = ''nginx'', Status = ImageScanStatusPending\<rparr>]\<rparr>]
   \<and> map image_id (getImages (delta example_controller)) = [''sha256:aa'']
   \<and> \<not> fullSnapshotSent example_controller
   \<and> snd (snd (updateImageStatuses (\<lambda>report. None) example_controller_sent 20)) =
     [\<lparr>FullSnapshot = True,
       Images = [\<lparr>ID = ''sha256:aa'', Architecture = ''amd64'', ResourceIDs = [''dep1''],
                  ImageName = ''nginx'', Status = ImageScanStatusPending\<rparr>]\<rparr>]
   \<and> map image_id (getImages (delta example_controller_sent)) = [''sha256:bb'', ''sha256:aa'']
   \<and> fullSnapshotSent example_controller_sent"
  by (simp add: updateImageStatuses_def example_controller_def example_controller_sent_def
      example_delta_def example_image_def example_image_changed_def example_image_failed_def
      newImage_def getImages_def lo_Values_def lo_Keys_def After_def isImagePending_def
      isImagePrivate_def errors_Is_def IsZero_def Before_def)

section \<open>Rebuilding the image map from the remote state\<close>

lemma buildImageMap_alt:
  "buildImageMap xs =
     foldl (\<lambda>imgs s. AList.update (CacheKey s) (buildImageMap_image s) imgs) [] xs"
  by (simp add: buildImageMap_def buildImageMap_image_def Let_def)

lemma set_foldl_update:
  "set (foldl (\<lambda>imgs s. AList.update (CacheKey s) (buildImageMap_image s) imgs) acc xs)
     \<subseteq> set acc \<union> (\<lambda>s. (CacheKey s, buildImageMap_image s)) ` set xs"
proof (induction xs arbitrary: acc)
  case Nil
  show ?case by simp
next
  case (Cons x xs)
  show ?case
    using Cons.IH [of "AList.update (CacheKey x) (buildImageMap_image x) acc"]
      set_update_subset [of "CacheKey x" "buildImageMap_image x" acc]
    by auto
qed

lemma keys_foldl_update:
  "fst ` set (foldl (\<lambda>imgs s. AList.update (CacheKey s) (buildImageMap_image s) imgs) acc xs)
     = fst ` set acc \<union> CacheKey ` set xs"
  by (induction xs arbitrary: acc) (auto simp: dom_update)

lemma distinct_foldl_update:
  "distinct (map fst acc) \<Longrightarrow>
   distinct (map fst (foldl (\<lambda>imgs s. AList.update (CacheKey s) (buildImageMap_image s) imgs) acc xs))"
  by (induction xs arbitrary: acc) (auto simp: distinct_update)

lemma buildImageMap_entries:
  assumes "(k, img) \<in> set (buildImageMap xs)"
  shows "\<exists>x \<in> set xs. k = CacheKey x \<and> img = buildImageMap_image x"
  using assms set_foldl_update [of "[]" xs] by (auto simp: buildImageMap_alt)

lemma buildImageMap_keys: "fst ` set (buildImageMap xs) = CacheKey ` set xs"
  by (simp add: buildImageMap_alt keys_foldl_update)

lemma buildImageMap_distinct: "distinct (map fst (buildImageMap xs))"
  by (simp add: buildImageMap_alt distinct_foldl_update)

lemma buildImageMap_image_props:
  "scanned (buildImageMap_image x) \<and> cacheKey (buildImageMap_image x) = CacheKey x
   \<and> image_id (buildImageMap_image x) = si_ID x
   \<and> image_architecture (buildImageMap_image x) = si_Architecture x
   \<and> fst ` set (owners (buildImageMap_image x)) = set (si_ResourceIDs x)
   \<and> image_nodes (buildImageMap_image x) = []"
proof -
  have "fst ` set (foldl (\<lambda>m i. AList.update i \<lparr>owner_podIDs = {}\<rparr> m) acc ids)
      = fst ` set acc \<union> set ids" for acc ids
    by (induction ids arbitrary: acc) (auto simp: dom_update)
  from this [of "[]" "si_ResourceIDs x"] show ?thesis
    by (simp add: buildImageMap_image_def newImage_def cacheKey_def CacheKey_def)
qed

text \<open>
  C10: \<open>Observe\<close> itself never changes the image map. For a response without \<open>FullResync\<close>
  or with an empty list of scanned images it leaves the whole state as it is, so nothing is
  queued for the controller and the image map stays. For a response with \<open>FullResync\<close> and
  a non-empty list it queues that list on \<open>remoteImagesUpdate\<close> (when the channel has room);
  once the controller receives it, the image map is replaced by \<open>buildImageMap\<close> of the list:
  one entry per cache key of the list, each entry marked scanned and stored under its own
  cache key.
\<close>

theorem Observe_replaces_images_only_on_full_resync:
  "(\<forall>d'. Observe d response = Some d' \<longrightarrow> images d' = images d)
   \<and> (\<not> (FullResync response \<and> ScannedImages response \<noteq> []) \<longrightarrow>
        Observe d response = Some d)
   \<and> (FullResync response \<and> ScannedImages response \<noteq> [] \<and> length (remoteImagesUpdate d) < 3 \<longrightarrow>
        Observe d response
          = Some (d\<lparr>remoteImagesUpdate := remoteImagesUpdate d @ [ScannedImages response]\<rparr>))
   \<and> (remoteImagesUpdate d = [] \<longrightarrow>
        map_option (\<lambda>d'. images (receiveRemoteImagesUpdate d')) (Observe d response)
          = Some (if FullResync response \<and> ScannedImages response \<noteq> []
                  then buildImageMap (ScannedImages response) else images d))
   \<and> images (updateImagesFromRemote d (ScannedImages response))
        = buildImageMap (ScannedImages response)
   \<and> fst ` set (buildImageMap (ScannedImages response)) = CacheKey ` set (ScannedImages response)
   \<and> (\<forall>(k, img) \<in> set (buildImageMap (ScannedImages response)).
          scanned img \<and> k = cacheKey img
          \<and> (\<exists>x \<in> set (ScannedImages response). k = CacheKey x \<and> img = buildImageMap_image x))"
proof -
  have 1: "\<forall>d'. Observe d response = Some d' \<longrightarrow> images d' = images d"
    by (auto simp: Observe_def split: if_splits)
  have 2: "\<not> (FullResync response \<and> ScannedImages response \<noteq> []) \<longrightarrow> Observe d response = Some d"
    by (auto simp: Observe_def)
  have 3: "FullResync response \<and> ScannedImages response \<noteq> [] \<and> length (remoteImagesUpdate d) < 3 \<longrightarrow>
        Observe d response
          = Some (d\<lparr>remoteImagesUpdate := remoteImagesUpdate d @ [ScannedImages response]\<rparr>)"
    by (auto simp: Observe_def)
  have 4: "remoteImagesUpdate d = [] \<longrightarrow>
        map_option (\<lambda>d'. images (receiveRemoteImagesUpdate d')) (Observe d response)
          = Some (if FullResync response \<and> ScannedImages response \<noteq> []
                  then buildImageMap (ScannedImages response) else images d)"
    by (auto simp: Observe_def receiveRemoteImagesUpdate_def updateImagesFromRemote_def)
  have 5: "images (updateImagesFromRemote d (ScannedImages response))
        = buildImageMap (ScannedImages response)"
    by (simp add: updateImagesFromRemote_def)
  have 6: "\<forall>(k, img) \<in> set (buildImageMap (ScannedImages response)).
          scanned img \<and> k = cacheKey img
          \<and> (\<exists>x \<in> set (ScannedImages response). k = CacheKey x \<and> img = buildImageMap_image x)"
    using buildImageMap_entries [of _ _ "ScannedImages response"] buildImageMap_image_props
    by fastforce
  show ?thesis
    by (intro conjI 1 2 3 4 5 6 buildImageMap_keys)
qed

theorem Observe_replaces_images_only_on_full_resync_witness:
  "FullResync example_response \<and> ScannedImages example_response \<noteq> []
   \<and> remoteImagesUpdate example_delta = []
   \<and> map_option (\<lambda>d'. images (receiveRemoteImagesUpdate d')) (Observe example_delta example_response)
       = Some [(''sha256:ccarm64'',
                (newImage ''sha256:cc'' ''arm64'')
                  \<lparr>scanned := True, owners := [(''dep2'', \<lparr>owner_podIDs = {}\<rparr>)]\<rparr>)]
   \<and> map_option (\<lambda>d'. images (receiveRemoteImagesUpdate d'))
        (Observe example_delta (example_response\<lparr>FullResync := False\<rparr>))
       = Some (images example_delta)"
proof -
  have h: "FullResync example_response" "ScannedImages example_response \<noteq> []"
    "remoteImagesUpdate example_delta = []"
    by (simp_all add: example_response_def example_delta_def)
  have b: "buildImageMap (ScannedImages example_response)
       = [(''sha256:ccarm64'',
           (newImage ''sha256:cc'' ''arm64'')
             \<lparr>scanned := True, owners := [(''dep2'', \<lparr>owner_podIDs = {}\<rparr>)]\<rparr>)]"
    by (simp add: example_response_def buildImageMap_def CacheKey_def newImage_def)
  note t1 = Observe_replaces_images_only_on_full_resync [of example_delta example_response]
  note t2 = Observe_replaces_images_only_on_full_resync
              [of example_delta "example_response\<lparr>FullResync := False\<rparr>"]
  from t1 have "remoteImagesUpdate example_delta = [] \<longrightarrow>
        map_option (\<lambda>d'. images (receiveRemoteImagesUpdate d')) (Observe example_delta example_response)
          = Some (if FullResync example_response \<and> ScannedImages example_response \<noteq> []
                  then buildImageMap (ScannedImages example_response) else images example_delta)"
    by blast
  with h have "map_option (\<lambda>d'. images (receiveRemoteImagesUpdate d'))
        (Observe example_delta example_response)
      = Some (buildImageMap (ScannedImages example_response))" by (simp only: if_True simp_thms)
  moreover from t2 have "remoteImagesUpdate example_delta = [] \<longrightarrow>
        map_option (\<lambda>d'. images (receiveRemoteImagesUpdate d'))
          (Observe example_delta (example_response\<lparr>FullResync := False\<rparr>))
          = Some (if FullResync (example_response\<lparr>FullResync := False\<rparr>)
                     \<and> ScannedImages (example_response\<lparr>FullResync := False\<rparr>) \<noteq> []
                  then buildImageMap (ScannedImages (example_response\<lparr>FullResync := False\<rparr>))
                  else images example_delta)"
    by blast
  with h have "map_option (\<lambda>d'. images (receiveRemoteImagesUpdate d'))
        (Observe example_delta (example_response\<lparr>FullResync := False\<rparr>))
       = Some (images example_delta)" by simp
  ultimately show ?thesis using h b by (simp only: simp_thms)
qed

section \<open>Unused images are purged\<close>

lemma noUnused_iff: "noUnusedImages d \<longleftrightarrow> (\<forall>(k, img) \<in> set (images d). \<not> isUnused img)"
  by (auto simp: noUnusedImages_def getImages_def lo_Values_def list_all_iff)

lemma noUnused_handlePodDelete: "noUnusedImages (handlePodDelete d p)"
  by (auto simp: noUnused_iff handlePodDelete_def Let_def isUnused_def split: option.splits)

lemma noUnused_handleNodeDelete: "noUnusedImages (handleNodeDelete d v)"
  by (auto simp: noUnused_iff handleNodeDelete_def Let_def)

lemma images_updateNodesUsageFromPod [simp]: "images (updateNodesUsageFromPod d v) = images d"
  by (simp add: updateNodesUsageFromPod_def Let_def split: option.splits)

lemma images_updateNodeUsage [simp]: "images (updateNodeUsage d v) = images d"
  by (simp add: updateNodeUsage_def Let_def)

lemma noUnused_upsertImages_container:
  assumes "noUnusedImages d"
  shows "noUnusedImages (upsertImages_container p css podID ownerID d cont)"
proof -
  have upd: "\<And>k img. \<not> isUnused img \<Longrightarrow> noUnusedImages (d\<lparr>images := AList.update k img (images d)\<rparr>)"
    using assms set_update_subset [of _ _ "images d"] by (fastforce simp: noUnused_iff)
  show ?thesis
    unfolding upsertImages_container_def
    by (auto simp: Let_def isUnused_def assms intro!: upd split: option.splits)
qed

lemma noUnused_foldl_container:
  "noUnusedImages d \<Longrightarrow> noUnusedImages (foldl (upsertImages_container p css podID ownerID) d cs)"
  by (induction cs arbitrary: d) (auto simp: noUnused_upsertImages_container)

lemma noUnused_upsertImages: "noUnusedImages d \<Longrightarrow> noUnusedImages (upsertImages d p)"
  by (simp add: upsertImages_def Let_def noUnused_foldl_container)

lemma noUnused_upsert:
  assumes "noUnusedImages d"
  shows "noUnusedImages (upsert K d obj)"
proof (cases obj)
  case (PodObject v)
  have "noUnusedImages (upsertImages d v)" using assms by (rule noUnused_upsertImages)
  then show ?thesis using PodObject by (simp add: upsert_def handlePodUpdate_def noUnused_iff)
qed (use assms in \<open>simp_all add: upsert_def noUnused_iff\<close>)

lemma noUnused_delete:
  assumes "noUnusedImages d"
  shows "noUnusedImages (delete K d obj)"
proof (cases obj)
  case (PodObject v)
  then show ?thesis by (simp add: delete_def noUnused_handlePodDelete)
next
  case (NodeObject v)
  then show ?thesis by (simp add: delete_def noUnused_handleNodeDelete)
qed (use assms in \<open>simp_all add: delete_def noUnused_iff\<close>)

lemma noUnused_handleDelta: "noUnusedImages d \<Longrightarrow> noUnusedImages (handleDelta K d ev obj)"
  by (cases ev) (simp_all add: handleDelta_def noUnused_upsert noUnused_delete)

lemma noUnused_handleDeltas: "noUnusedImages d \<Longrightarrow> noUnusedImages (handleDeltas K d items)"
  unfolding handleDeltas_def
  by (induction items arbitrary: d) (auto simp: noUnused_handleDelta)

lemma noUnused_NewDeltaState:
  assumes "\<forall>s \<in> set seed. si_ResourceIDs s \<noteq> []"
  shows "noUnusedImages (NewDeltaState seed)"
proof -
  have "\<not> isUnused img" if "(k, img) \<in> set (buildImageMap seed)" for k img
  proof -
    from buildImageMap_entries [OF that] obtain x where x: "x \<in> set seed" "img = buildImageMap_image x"
      by blast
    with assms have "set (si_ResourceIDs x) \<noteq> {}" by simp
    then have "fst ` set (owners img) \<noteq> {}" using x buildImageMap_image_props [of x] by simp
    then show ?thesis by (auto simp: isUnused_def)
  qed
  then show ?thesis by (auto simp: noUnused_iff NewDeltaState_def)
qed

text \<open>
  A delta state seeded with a scanned image that has no resource ids holds an image without
  owners and without nodes, and an event that touches no image (the upsert of a job) leaves
  it in \<open>getImages\<close>.
\<close>

theorem seeded_image_without_owner_stays_tracked:
  "\<not> noUnusedImages
       (handleDeltas example_ObjectKey (NewDeltaState example_seed_no_owner)
          [(EventAdd, JobObject example_Job)])"
  by (simp add: noUnusedImages_def handleDeltas_def handleDelta_def upsert_def NewDeltaState_def
      example_seed_no_owner_def buildImageMap_def getImages_def lo_Values_def isUnused_def
      newImage_def Let_def)

text \<open>
  C2 (amended): starting from a delta state in which every image has an owner or a node,
  in particular from a state seeded with scanned images that each have at least one resource
  id (or with none at all), after any sequence of upsert and delete events every image in
  \<open>getImages\<close> has an owner or a node; and whatever the state before, after a pod deletion
  and after a node deletion no image without owners and without nodes is left in the map.
\<close>

theorem tracked_images_stay_used:
  "(noUnusedImages d \<longrightarrow> noUnusedImages (handleDeltas ObjectKey d items))
   \<and> ((\<forall>s \<in> set seed. si_ResourceIDs s \<noteq> []) \<longrightarrow>
        noUnusedImages (handleDeltas ObjectKey (NewDeltaState seed) items))
   \<and> noUnusedImages (handlePodDelete d p)
   \<and> noUnusedImages (handleNodeDelete d n)"
  using noUnused_handleDeltas noUnused_NewDeltaState noUnused_handlePodDelete
    noUnused_handleNodeDelete
  by blast

theorem tracked_images_stay_used_witness:
  "noUnusedImages example_delta
   \<and> noUnusedImages (handleDeltas example_ObjectKey example_delta
         [(EventDelete, PodObject example_pod), (EventDelete, NodeObject example_Node)])
   \<and> images (handleDeltas example_ObjectKey example_delta
         [(EventDelete, PodObject example_pod), (EventDelete, NodeObject example_Node)]) = []
   \<and> si_ResourceIDs (hd example_seed) \<noteq> []
   \<and> noUnusedImages (handleDeltas example_ObjectKey (NewDeltaState example_seed)
         [(EventAdd, PodObject example_pod), (EventDelete, PodObject example_pod)])"
proof -
  have h1: "noUnusedImages example_delta"
    by (simp add: noUnusedImages_def getImages_def lo_Values_def isUnused_def example_delta_def
        example_image_def)
  have h2: "\<forall>s \<in> set example_seed. si_ResourceIDs s \<noteq> []"
    by (simp add: example_seed_def)
  have e: "images (handleDeltas example_ObjectKey example_delta
         [(EventDelete, PodObject example_pod), (EventDelete, NodeObject example_Node)]) = []"
    by code_simp
  have s: "si_ResourceIDs (hd example_seed) \<noteq> []"
    by (simp add: example_seed_def)
  note t1 = tracked_images_stay_used [of example_delta example_ObjectKey
      "[(EventDelete, PodObject example_pod), (EventDelete, NodeObject example_Node)]"
      example_seed example_pod example_Node]
  note t2 = tracked_images_stay_used [of example_delta example_ObjectKey
      "[(EventAdd, PodObject example_pod), (EventDelete, PodObject example_pod)]"
      example_seed example_pod example_Node]
  from t1 h1 have "noUnusedImages (handleDeltas example_ObjectKey example_delta
         [(EventDelete, PodObject example_pod), (EventDelete, NodeObject example_Node)])"
    by blast
  moreover from t2 h2 have "noUnusedImages (handleDeltas example_ObjectKey (NewDeltaState example_seed)
         [(EventAdd, PodObject example_pod), (EventDelete, PodObject example_pod)])"
    by blast
  ultimately show ?thesis using h1 e s by (simp only: simp_thms)
qed

section \<open>Owner resolution\<close>

lemma findOwnerFromDeployments_Some:
  assumes "findOwnerFromDeployments L deps p = Some owner"
  shows "\<exists>(k, dep) \<in> set deps. dep_UID dep = owner
           \<and> (\<exists>sel. L (dep_Selector dep) = Inr sel \<and> sel (pod_Labels p))"
  using assms
  by (induction L deps p rule: findOwnerFromDeployments.induct)
     (auto split: sum.splits if_splits)

lemma findOwnerFromDeployments_None:
  "findOwnerFromDeployments L deps p = None \<longleftrightarrow>
     \<not> (\<exists>(k, dep) \<in> set deps. \<exists>sel. L (dep_Selector dep) = Inr sel \<and> sel (pod_Labels p))"
  by (induction L deps p rule: findOwnerFromDeployments.induct)
     (auto split: sum.splits if_splits)

text \<open>
  A pod owned by a replica set that is cached without owner references resolves to the
  replica set, although a cached deployment selects the pod's labels; and the same pod
  resolves to its own id when the replica set is not cached and no deployment matches.
\<close>

theorem GetPodOwnerID_skips_selector_for_bare_ReplicaSet:
  "GetPodOwnerID example_matchLabels example_kube_bare_rs example_rs_pod = ''rs1''
   \<and> map_of (replicaSets example_kube_bare_rs) ''rs1''
        = Some \<lparr>rs_UID = ''rs1'', rs_OwnerReferences = []\<rparr>
   \<and> findOwnerFromDeployments example_matchLabels (deployments example_kube_bare_rs) example_rs_pod
        = Some ''dep9''
   \<and> GetPodOwnerID example_matchLabels example_kube_empty example_rs_pod = ''p1''
   \<and> pod_OwnerReferences example_rs_pod = [\<lparr>ref_Kind = ''ReplicaSet'', ref_UID = ''rs1''\<rparr>]"
  by (simp add: GetPodOwnerID_def example_rs_pod_def example_pod_def example_kube_bare_rs_def
      example_kube_empty_def example_matchLabels_def findNextOwnerID_def)

text \<open>
  C9 (amended): a pod without owner references resolves to its own id. For a pod whose
  first owner reference is a replica set, \<open>GetPodOwnerID\<close> of the kube controller returns:
  the replica set's own id when the replica set is cached and has no owner references; the
  id of its first owner of kind Deployment when it is cached and has one; otherwise (the
  replica set is cached with other owners only, or is not cached) the id of a cached
  deployment whose label selector matches the pod's labels, if there is one, else the
  replica set's id when it is cached and the pod's own id when it is not.
  \<open>getPodOwnerID\<close> of delta.go matches no selectors: it returns the first owner of the
  cached replica set, if any, else the id of the replica set reference.
\<close>

theorem GetPodOwnerID_ReplicaSet_resolution:
  "(pod_OwnerReferences p = [] \<longrightarrow> GetPodOwnerID L c p = pod_UID p)
   \<and> (pod_OwnerReferences p = ref # refs \<and> ref_Kind ref = ''ReplicaSet'' \<longrightarrow>
        GetPodOwnerID L c p =
          (case map_of (replicaSets c) (ref_UID ref) of
             Some rset \<Rightarrow>
               (if rs_OwnerReferences rset = [] then rs_UID rset
                else case find (\<lambda>r. ref_Kind r = ''Deployment'') (rs_OwnerReferences rset) of
                       Some r \<Rightarrow> ref_UID r
                     | None \<Rightarrow>
                         (case findOwnerFromDeployments L (deployments c) p of
                            Some owner \<Rightarrow> owner
                          | None \<Rightarrow> rs_UID rset))
           | None \<Rightarrow>
               (case findOwnerFromDeployments L (deployments c) p of
                  Some owner \<Rightarrow> owner
                | None \<Rightarrow> pod_UID p)))
   \<and> (findOwnerFromDeployments L deps p = Some owner \<longrightarrow>
        (\<exists>(k, dep) \<in> set deps. dep_UID dep = owner
           \<and> (\<exists>sel. L (dep_Selector dep) = Inr sel \<and> sel (pod_Labels p))))
   \<and> (findOwnerFromDeployments L deps p = None \<longleftrightarrow>
        \<not> (\<exists>(k, dep) \<in> set deps. \<exists>sel. L (dep_Selector dep) = Inr sel \<and> sel (pod_Labels p)))
   \<and> (pod_OwnerReferences p = [] \<longrightarrow> getPodOwnerID p rsMap jobsMap = pod_UID p)
   \<and> (pod_OwnerReferences p = ref # refs \<and> ref_Kind ref = ''ReplicaSet'' \<longrightarrow>
        getPodOwnerID p rsMap jobsMap =
          (case find (\<lambda>val. rs_UID val = ref_UID ref) (lo_Values rsMap) of
             Some val \<Rightarrow>
               (case rs_OwnerReferences val of r # rest \<Rightarrow> ref_UID r | [] \<Rightarrow> ref_UID ref)
           | None \<Rightarrow> ref_UID ref))"
proof -
  have 1: "pod_OwnerReferences p = [] \<longrightarrow> GetPodOwnerID L c p = pod_UID p"
    by (simp add: GetPodOwnerID_def)
  have 2: "pod_OwnerReferences p = ref # refs \<and> ref_Kind ref = ''ReplicaSet'' \<longrightarrow>
        GetPodOwnerID L c p =
          (case map_of (replicaSets c) (ref_UID ref) of
             Some rset \<Rightarrow>
               (if rs_OwnerReferences rset = [] then rs_UID rset
                else case find (\<lambda>r. ref_Kind r = ''Deployment'') (rs_OwnerReferences rset) of
                       Some r \<Rightarrow> ref_UID r
                     | None \<Rightarrow>
                         (case findOwnerFromDeployments L (deployments c) p of
                            Some owner \<Rightarrow> owner
                          | None \<Rightarrow> rs_UID rset))
           | None \<Rightarrow>
               (case findOwnerFromDeployments L (deployments c) p of
                  Some owner \<Rightarrow> owner
                | None \<Rightarrow> pod_UID p))"
    by (auto simp: GetPodOwnerID_def findNextOwnerID_def Let_def split: option.splits)
  have 3: "findOwnerFromDeployments L deps p = Some owner \<longrightarrow>
        (\<exists>(k, dep) \<in> set deps. dep_UID dep = owner
           \<and> (\<exists>sel. L (dep_Selector dep) = Inr sel \<and> sel (pod_Labels p)))"
    using findOwnerFromDeployments_Some by blast
  have 5: "pod_OwnerReferences p = [] \<longrightarrow> getPodOwnerID p rsMap jobsMap = pod_UID p"
    by (simp add: getPodOwnerID_def)
  have 6: "pod_OwnerReferences p = ref # refs \<and> ref_Kind ref = ''ReplicaSet'' \<longrightarrow>
        getPodOwnerID p rsMap jobsMap =
          (case find (\<lambda>val. rs_UID val = ref_UID ref) (lo_Values rsMap) of
             Some val \<Rightarrow>
               (case rs_OwnerReferences val of r # rest \<Rightarrow> ref_UID r | [] \<Rightarrow> ref_UID ref)
           | None \<Rightarrow> ref_UID ref)"
    by (auto simp: getPodOwnerID_def split: option.splits list.splits)
  show ?thesis
    by (intro conjI 1 2 3 findOwnerFromDeployments_None 5 6)
qed

theorem GetPodOwnerID_ReplicaSet_resolution_witness:
  "pod_OwnerReferences example_rs_pod = [\<lparr>ref_Kind = ''ReplicaSet'', ref_UID = ''rs1''\<rparr>]
   \<and> GetPodOwnerID example_matchLabels example_kube_rollout example_rs_pod = ''dep9''
   \<and> GetPodOwnerID example_matchLabels example_kube_bare_rs example_rs_pod = ''rs1''
   \<and> pod_OwnerReferences (example_pod\<lparr>pod_OwnerReferences := []\<rparr>) = []
   \<and> GetPodOwnerID example_matchLabels example_kube_rollout
        (example_pod\<lparr>pod_OwnerReferences := []\<rparr>) = ''p1''"
proof -
  have refs: "pod_OwnerReferences example_rs_pod = [\<lparr>ref_Kind = ''ReplicaSet'', ref_UID = ''rs1''\<rparr>]"
    by (simp add: example_rs_pod_def)
  note t1 = GetPodOwnerID_ReplicaSet_resolution [of example_rs_pod example_matchLabels
      example_kube_rollout "\<lparr>ref_Kind = ''ReplicaSet'', ref_UID = ''rs1''\<rparr>" "[]"]
  note t2 = GetPodOwnerID_ReplicaSet_resolution [of example_rs_pod example_matchLabels
      example_kube_bare_rs "\<lparr>ref_Kind = ''ReplicaSet'', ref_UID = ''rs1''\<rparr>" "[]"]
  note t3 = GetPodOwnerID_ReplicaSet_resolution [of "example_pod\<lparr>pod_OwnerReferences := []\<rparr>"
      example_matchLabels example_kube_rollout]
  from t1 refs have a: "GetPodOwnerID example_matchLabels example_kube_rollout example_rs_pod = ''dep9''"
    by (simp add: example_kube_rollout_def example_matchLabels_def example_rs_pod_def
        example_pod_def)
  from t2 refs have b: "GetPodOwnerID example_matchLabels example_kube_bare_rs example_rs_pod = ''rs1''"
    by (simp add: example_kube_bare_rs_def example_matchLabels_def example_rs_pod_def
        example_pod_def)
  from t3 have c: "GetPodOwnerID example_matchLabels example_kube_rollout
        (example_pod\<lparr>pod_OwnerReferences := []\<rparr>) = ''p1''"
    by (simp add: example_pod_def)
  show ?thesis using refs a b c by simp
qed

end
